theory Spec2Isabelle
  imports Complex_Main
begin

section \<open>pdf-shrinker (\<open>src/index.js\<close>): the compression levels\<close>

text \<open>
  A JavaScript string is modelled as a \<^typ>\<open>string\<close>; a \<^typ>\<open>char\<close> stands for a
  UTF-16 code unit in the range U+0000..U+00FF. The compression level, a JavaScript
  number that is an integer after \<open>parseInt\<close>, is an \<^typ>\<open>int\<close>.
\<close>

subsection \<open>\<open>getGsOptionsForLevel\<close> (index.js, lines 185-297)\<close>

definition baseOptions :: "string list" where
  "baseOptions =
     [''-sDEVICE=pdfwrite'',
      ''-dNOPAUSE'',
      ''-dQUIET'',
      ''-dBATCH'',
      ''-dSAFER'']"

text \<open>
  The \<open>switch\<close> compares with \<open>===\<close>; its \<open>default\<close> branch calls the function again
  at level 3, which is the only recursive call.
\<close>

function getGsOptionsForLevel :: "int \<Rightarrow> string list" where
  "getGsOptionsForLevel level =
     (if level = 1 then
        baseOptions @
        [''-dPDFSETTINGS=/prepress'',
         ''-dCompatibilityLevel=1.7'',
         ''-dColorImageResolution=300'',
         ''-dGrayImageResolution=300'',
         ''-dMonoImageResolution=300'',
         ''-dColorImageDownsampleType=/Bicubic'',
         ''-dGrayImageDownsampleType=/Bicubic'',
         ''-dMonoImageDownsampleType=/Bicubic'',
         ''-dAutoFilterColorImages=false'',
         ''-dAutoFilterGrayImages=false'',
         ''-dColorImageFilter=/DCTEncode'',
         ''-dGrayImageFilter=/DCTEncode'',
         ''-dJPEGQ=95'']
      else if level = 2 then
        baseOptions @
        [''-dPDFSETTINGS=/printer'',
         ''-dCompatibilityLevel=1.6'',
         ''-dColorImageResolution=150'',
         ''-dGrayImageResolution=150'',
         ''-dMonoImageResolution=200'',
         ''-dColorImageDownsampleType=/Bicubic'',
         ''-dGrayImageDownsampleType=/Bicubic'',
         ''-dMonoImageDownsampleType=/Bicubic'',
         ''-dAutoFilterColorImages=true'',
         ''-dAutoFilterGrayImages=true'',
         ''-dColorImageFilter=/DCTEncode'',
         ''-dGrayImageFilter=/DCTEncode'',
         ''-dJPEGQ=85'']
      else if level = 3 then
        baseOptions @
        [''-dPDFSETTINGS=/ebook'',
         ''-dCompatibilityLevel=1.5'',
         ''-dColorImageResolution=110'',
         ''-dGrayImageResolution=110'',
         ''-dMonoImageResolution=150'',
         ''-dColorImageDownsampleType=/Average'',
         ''-dGrayImageDownsampleType=/Average'',
         ''-dMonoImageDownsampleType=/Bicubic'',
         ''-dAutoFilterColorImages=true'',
         ''-dAutoFilterGrayImages=true'',
         ''-dColorImageFilter=/DCTEncode'',
         ''-dGrayImageFilter=/DCTEncode'',
         ''-dJPEGQ=80'']
      else if level = 4 then
        baseOptions @
        [''-dPDFSETTINGS=/ebook'',
         ''-dCompatibilityLevel=1.5'',
         ''-dColorImageResolution=96'',
         ''-dGrayImageResolution=96'',
         ''-dMonoImageResolution=150'',
         ''-dColorImageDownsampleType=/Average'',
         ''-dGrayImageDownsampleType=/Average'',
         ''-dMonoImageDownsampleType=/Subsample'',
         ''-dAutoFilterColorImages=true'',
         ''-dAutoFilterGrayImages=true'',
         ''-dColorImageFilter=/DCTEncode'',
         ''-dGrayImageFilter=/DCTEncode'',
         ''-dJPEGQ=75'']
      else if level = 5 then
        baseOptions @
        [''-dPDFSETTINGS=/screen'',
         ''-dCompatibilityLevel=1.4'',
         ''-dColorImageResolution=72'',
         ''-dGrayImageResolution=72'',
         ''-dMonoImageResolution=72'',
         ''-dColorImageDownsampleType=/Average'',
         ''-dGrayImageDownsampleType=/Average'',
         ''-dMonoImageDownsampleType=/Subsample'',
         ''-dAutoFilterColorImages=true'',
         ''-dAutoFilterGrayImages=true'',
         ''-dColorImageFilter=/DCTEncode'',
         ''-dGrayImageFilter=/DCTEncode'',
         ''-dJPEGQ=50'',
         ''-dEmbedAllFonts=false'',
         ''-dSubsetFonts=true'',
         ''-dCompressFonts=true'',
         ''-dConvertCMYKImagesToRGB=true'',
         ''-dDetectDuplicateImages=true'',
         ''-dOptimize=true'']
      else getGsOptionsForLevel 3)"
  by pat_completeness auto
termination
  by (relation "measure (\<lambda>level. if level = 3 then 0 else 1)") auto

declare getGsOptionsForLevel.simps [simp del]

subsection \<open>Reading a directive out of a parameter list\<close>

text \<open>
  An engine directive \<open>-dKey=value\<close> is found by its key. \<open>directive key opts\<close> lists,
  in order, the values of all parameters of \<open>opts\<close> that set \<open>key\<close>.
\<close>

fun stripPrefix :: "string \<Rightarrow> string \<Rightarrow> string option" where
  "stripPrefix [] s = Some s"
| "stripPrefix (p # ps) [] = None"
| "stripPrefix (p # ps) (c # cs) = (if p = c then stripPrefix ps cs else None)"

definition directive :: "string \<Rightarrow> string list \<Rightarrow> string list" where
  "directive key opts = List.map_filter (stripPrefix (''-d'' @ key @ ''='')) opts"

subsection \<open>The mapping table of the specification\<close>

text \<open>
  The table of section 4.2 of the specification, column by column, written from the
  specification's words and independent of the code above.
\<close>

definition table_preset :: "int \<Rightarrow> string" where
  "table_preset L =
     (if L = 1 then ''prepress'' else if L = 2 then ''printer''
      else if L = 3 then ''ebook'' else if L = 4 then ''ebook'' else ''screen'')"

definition table_compat :: "int \<Rightarrow> string" where
  "table_compat L =
     (if L = 1 then ''1.7'' else if L = 2 then ''1.6''
      else if L = 3 then ''1.5'' else if L = 4 then ''1.5'' else ''1.4'')"

definition table_dpi :: "int \<Rightarrow> string \<times> string \<times> string" where
  "table_dpi L =
     (if L = 1 then (''300'', ''300'', ''300'')
      else if L = 2 then (''150'', ''150'', ''200'')
      else if L = 3 then (''110'', ''110'', ''150'')
      else if L = 4 then (''96'', ''96'', ''150'')
      else (''72'', ''72'', ''72''))"

definition table_downsample :: "int \<Rightarrow> string \<times> string \<times> string" where
  "table_downsample L =
     (if L = 1 then (''Bicubic'', ''Bicubic'', ''Bicubic'')
      else if L = 2 then (''Bicubic'', ''Bicubic'', ''Bicubic'')
      else if L = 3 then (''Average'', ''Average'', ''Bicubic'')
      else if L = 4 then (''Average'', ''Average'', ''Subsample'')
      else (''Average'', ''Average'', ''Subsample''))"

definition table_jpegq :: "int \<Rightarrow> string" where
  "table_jpegq L =
     (if L = 1 then ''95'' else if L = 2 then ''85''
      else if L = 3 then ''80'' else if L = 4 then ''75'' else ''50'')"

text \<open>
  The column "Extra": empty for levels 1 to 4; for level 5, in the table's order,
  disable font embedding, subset and compress fonts, convert CMYK to RGB, detect
  duplicate images, enable general optimization.
\<close>

definition table_extra :: "int \<Rightarrow> (string \<times> string) list" where
  "table_extra L =
     (if L = 5 then
        [(''EmbedAllFonts'', ''false''),
         (''SubsetFonts'', ''true''),
         (''CompressFonts'', ''true''),
         (''ConvertCMYKImagesToRGB'', ''true''),
         (''DetectDuplicateImages'', ''true''),
         (''Optimize'', ''true'')]
      else [])"

definition extra_keys :: "string list" where
  "extra_keys =
     [''EmbedAllFonts'', ''SubsetFonts'', ''CompressFonts'',
      ''ConvertCMYKImagesToRGB'', ''DetectDuplicateImages'', ''Optimize'']"

definition matches_table :: "int \<Rightarrow> string list \<Rightarrow> bool" where
  "matches_table L opts =
     (directive ''PDFSETTINGS'' opts = [''/'' @ table_preset L] \<and>
      directive ''CompatibilityLevel'' opts = [table_compat L] \<and>
      directive ''ColorImageResolution'' opts = [fst (table_dpi L)] \<and>
      directive ''GrayImageResolution'' opts = [fst (snd (table_dpi L))] \<and>
      directive ''MonoImageResolution'' opts = [snd (snd (table_dpi L))] \<and>
      directive ''ColorImageDownsampleType'' opts = [''/'' @ fst (table_downsample L)] \<and>
      directive ''GrayImageDownsampleType'' opts = [''/'' @ fst (snd (table_downsample L))] \<and>
      directive ''MonoImageDownsampleType'' opts = [''/'' @ snd (snd (table_downsample L))] \<and>
      directive ''JPEGQ'' opts = [table_jpegq L] \<and>
      list_all (\<lambda>k. directive k opts = map snd (filter (\<lambda>kv. fst kv = k) (table_extra L)))
        extra_keys)"

section \<open>JavaScript and Node.js library functions used by \<open>src/index.js\<close>\<close>

subsection \<open>Strings\<close>

text \<open>\<open>String.prototype.toLowerCase\<close> on code units below U+0100.\<close>

definition toLowerCaseChar :: "char \<Rightarrow> char" where
  "toLowerCaseChar c =
     (let n = (of_char c :: nat)
      in if (65 \<le> n \<and> n \<le> 90) \<or> (192 \<le> n \<and> n \<le> 222 \<and> n \<noteq> 215)
         then char_of (n + 32) else c)"

definition toLowerCase :: "string \<Rightarrow> string" where
  "toLowerCase s = map toLowerCaseChar s"

definition endsWith :: "string \<Rightarrow> string \<Rightarrow> bool" where
  "endsWith s suffix =
     (length suffix \<le> length s \<and> drop (length s - length suffix) s = suffix)"

text \<open>
  White space and line terminators of ECMAScript below U+0100: TAB, LF, VT, FF, CR,
  SP and NBSP. They are what \<open>parseInt\<close> skips and \<open>trim\<close> removes.
\<close>

definition isStrWhiteSpaceChar :: "char \<Rightarrow> bool" where
  "isStrWhiteSpaceChar c =
     (let n = (of_char c :: nat) in (9 \<le> n \<and> n \<le> 13) \<or> n = 32 \<or> n = 160)"

definition trim :: "string \<Rightarrow> string" where
  "trim s = rev (dropWhile isStrWhiteSpaceChar (rev (dropWhile isStrWhiteSpaceChar s)))"

subsection \<open>\<open>parseInt\<close> with one argument\<close>

text \<open>
  The value of a digit in radix up to 36, \<open>None\<close> for any other code unit.
\<close>

definition digitValue :: "char \<Rightarrow> nat option" where
  "digitValue c =
     (let n = (of_char c :: nat)
      in if 48 \<le> n \<and> n \<le> 57 then Some (n - 48)
         else if 97 \<le> n \<and> n \<le> 122 then Some (n - 87)
         else if 65 \<le> n \<and> n \<le> 90 then Some (n - 55)
         else None)"

definition isRadixDigit :: "nat \<Rightarrow> char \<Rightarrow> bool" where
  "isRadixDigit R c = (case digitValue c of None \<Rightarrow> False | Some d \<Rightarrow> d < R)"

definition digitsValue :: "nat \<Rightarrow> string \<Rightarrow> nat" where
  "digitsValue R Z = foldl (\<lambda>a c. a * R + (case digitValue c of None \<Rightarrow> 0 | Some d \<Rightarrow> d)) 0 Z"

text \<open>
  \<open>parseInt(string)\<close> of ECMAScript, the radix left out: leading white space is
  skipped, a sign is read, a prefix \<open>0x\<close> or \<open>0X\<close> selects radix 16 (radix 10
  otherwise), and the longest run of digits that follows is the number; whatever comes
  after it is ignored. \<open>None\<close> is NaN, returned when there is no digit. The result
  is the mathematical integer; the Number that JavaScript returns is its rounding to a
  double, which compares with 1 and with 5 as the integer does.
\<close>

definition parseInt :: "string \<Rightarrow> int option" where
  "parseInt inputString =
     (let S = dropWhile isStrWhiteSpaceChar inputString;
          sign = (if S \<noteq> [] \<and> hd S = CHR ''-'' then - 1 else (1 :: int));
          S1 = (if S \<noteq> [] \<and> (hd S = CHR ''+'' \<or> hd S = CHR ''-'') then tl S else S);
          hex = (take 2 S1 = ''0x'' \<or> take 2 S1 = ''0X'');
          R = (if hex then 16 else 10);
          S2 = (if hex then drop 2 S1 else S1);
          Z = takeWhile (isRadixDigit R) S2
      in if Z = [] then None else Some (sign * int (digitsValue R Z)))"

text \<open>\<open>String(n)\<close> for an integer Number \<open>n\<close>.\<close>

fun showNat :: "nat \<Rightarrow> string" where
  "showNat n =
     (if n < 10 then [char_of (48 + n)]
      else showNat (n div 10) @ [char_of (48 + n mod 10)])"

declare showNat.simps [simp del]

definition showInt :: "int \<Rightarrow> string" where
  "showInt i = (if i < 0 then ''-'' @ showNat (nat (- i)) else showNat (nat i))"

subsection \<open>Numbers: binary64 arithmetic and \<open>toFixed\<close>\<close>

text \<open>
  A JavaScript Number: a finite binary64 value, given by the rational it denotes, an
  infinity, or NaN. Zero carries no sign (a negative zero prints as zero does), and
  the exponent range is not modelled: the values computed from file sizes stay far
  inside it.
\<close>

datatype number = NaN | PosInfinity | NegInfinity | Finite rat

text \<open>The number of binary digits of \<open>n\<close>.\<close>

function bitLength :: "int \<Rightarrow> nat" where
  "bitLength n = (if n \<le> 0 then 0 else Suc (bitLength (n div 2)))"
  by pat_completeness auto
termination
  by (relation "measure nat") auto

declare bitLength.simps [simp del]

definition pow2 :: "int \<Rightarrow> rat" where
  "pow2 e = (if 0 \<le> e then 2 ^ nat e else 1 / 2 ^ nat (- e))"

text \<open>For \<open>q > 0\<close>, the integer \<open>k\<close> with \<open>2 ^ k \<le> q < 2 ^ (k + 1)\<close>.\<close>

definition floorLog2 :: "rat \<Rightarrow> int" where
  "floorLog2 q =
     (let (a, b) = quotient_of q;
          s = int (bitLength a) - int (bitLength b)
      in if pow2 s \<le> q then s else s - 1)"

text \<open>The nearest integer, a tie going to the even one.\<close>

definition roundHalfEven :: "rat \<Rightarrow> int" where
  "roundHalfEven x =
     (let f = \<lfloor>x\<rfloor>; r = x - of_int f
      in if r < 1 / 2 then f else if 1 / 2 < r then f + 1 else if even f then f else f + 1)"

text \<open>
  The binary64 value nearest to the rational \<open>q\<close>, ties to even: \<open>q\<close> is scaled
  to a significand of 53 binary digits, which is rounded to an integer.
\<close>

definition roundDouble :: "rat \<Rightarrow> rat" where
  "roundDouble q =
     (if q = 0 then 0
      else let e = floorLog2 \<bar>q\<bar> - 52
           in sgn q * of_int (roundHalfEven (\<bar>q\<bar> / pow2 e)) * pow2 e)"

text \<open>The operators \<open>/\<close>, \<open>-\<close> and \<open>*\<close> of JavaScript on Numbers.\<close>

fun numDivide :: "number \<Rightarrow> number \<Rightarrow> number" where
  "numDivide (Finite x) (Finite y) =
     (if y = 0 then (if x = 0 then NaN else if 0 < x then PosInfinity else NegInfinity)
      else Finite (roundDouble (x / y)))"
| "numDivide (Finite x) PosInfinity = Finite 0"
| "numDivide (Finite x) NegInfinity = Finite 0"
| "numDivide PosInfinity (Finite y) = (if y < 0 then NegInfinity else PosInfinity)"
| "numDivide NegInfinity (Finite y) = (if y < 0 then PosInfinity else NegInfinity)"
| "numDivide x y = NaN"

fun numMinus :: "number \<Rightarrow> number \<Rightarrow> number" where
  "numMinus (Finite x) (Finite y) = Finite (roundDouble (x - y))"
| "numMinus (Finite x) PosInfinity = NegInfinity"
| "numMinus (Finite x) NegInfinity = PosInfinity"
| "numMinus PosInfinity (Finite y) = PosInfinity"
| "numMinus NegInfinity (Finite y) = NegInfinity"
| "numMinus PosInfinity NegInfinity = PosInfinity"
| "numMinus NegInfinity PosInfinity = NegInfinity"
| "numMinus x y = NaN"

fun numTimes :: "number \<Rightarrow> number \<Rightarrow> number" where
  "numTimes (Finite x) (Finite y) = Finite (roundDouble (x * y))"
| "numTimes (Finite x) PosInfinity =
     (if x = 0 then NaN else if 0 < x then PosInfinity else NegInfinity)"
| "numTimes (Finite x) NegInfinity =
     (if x = 0 then NaN else if 0 < x then NegInfinity else PosInfinity)"
| "numTimes PosInfinity (Finite y) =
     (if y = 0 then NaN else if 0 < y then PosInfinity else NegInfinity)"
| "numTimes NegInfinity (Finite y) =
     (if y = 0 then NaN else if 0 < y then NegInfinity else PosInfinity)"
| "numTimes PosInfinity PosInfinity = PosInfinity"
| "numTimes NegInfinity NegInfinity = PosInfinity"
| "numTimes PosInfinity NegInfinity = NegInfinity"
| "numTimes NegInfinity PosInfinity = NegInfinity"
| "numTimes x y = NaN"

text \<open>
  A numeric literal or an integer such as \<open>fs.statSync(p).size\<close>, as a Number.
\<close>

definition toNumber :: "nat \<Rightarrow> number" where
  "toNumber n = Finite (roundDouble (of_nat n))"

text \<open>
  \<open>Number.prototype.toFixed(f)\<close>, for magnitudes below \<open>10 ^ 21\<close>: of the integers
  \<open>n\<close> with \<open>n / 10 ^ f\<close> nearest to the magnitude the larger one is taken, and its
  decimal digits are printed with \<open>f\<close> of them after the point, after a minus sign if
  the value is negative. NaN and the infinities print by name.
\<close>

definition fixedDigits :: "nat \<Rightarrow> rat \<Rightarrow> nat" where
  "fixedDigits f a = nat \<lfloor>a * 10 ^ f + 1 / 2\<rfloor>"

definition toFixed :: "nat \<Rightarrow> number \<Rightarrow> string" where
  "toFixed f x =
     (case x of
        NaN \<Rightarrow> ''NaN''
      | PosInfinity \<Rightarrow> ''Infinity''
      | NegInfinity \<Rightarrow> ''-Infinity''
      | Finite v \<Rightarrow>
          let digits = showNat (fixedDigits f \<bar>v\<bar>);
              padded = replicate (Suc f - length digits) (CHR ''0'') @ digits;
              whole = take (length padded - f) padded;
              fraction = drop (length padded - f) padded
          in (if v < 0 then ''-'' else []) @ whole @
             (if f = 0 then [] else CHR ''.'' # fraction))"

subsection \<open>\<open>path.parse\<close> and \<open>path.join\<close> (POSIX flavour of Node's \<open>path\<close>)\<close>

definition slash :: char where
  "slash = CHR ''/''"

definition dot :: char where
  "dot = CHR ''.''"

text \<open>\<open>s.split('/')\<close>: the pieces between the separators, empty ones included.\<close>

fun splitSlash :: "string \<Rightarrow> string list" where
  "splitSlash [] = [[]]"
| "splitSlash (c # cs) =
     (if c = slash then [] # splitSlash cs
      else (case splitSlash cs of
              [] \<Rightarrow> [[c]]
            | seg # segs \<Rightarrow> (c # seg) # segs))"

text \<open>\<open>segs.join('/')\<close>.\<close>

fun joinSlash :: "string list \<Rightarrow> string" where
  "joinSlash [] = []"
| "joinSlash [seg] = seg"
| "joinSlash (seg # segs) = seg @ slash # joinSlash segs"

text \<open>
  The fields \<open>dir\<close> and \<open>name\<close> of \<open>path.parse(p)\<close>; the code reads no other.

  Trailing separators are dropped (the first code unit of an absolute path is never
  looked at). \<open>base\<close> is what follows the last separator that remains and \<open>dir\<close> what
  precedes it; with no separator left, \<open>dir\<close> is \<open>/\<close> for an absolute path and empty
  otherwise. \<open>name\<close> is \<open>base\<close> without its extension, which starts at the last dot
  of \<open>base\<close>; there is no extension when \<open>base\<close> has no dot, when its only dot comes
  first, or when \<open>base\<close> is \<open>..\<close> after a separator that was looked at.
\<close>

record parsedPath =
  pdir :: string
  pname :: string

text \<open>
  \<open>base\<close> without its extension. \<open>dotsRule\<close> says whether a \<open>base\<close> of \<open>..\<close> counts
  as having no extension.
\<close>

definition pathName :: "bool \<Rightarrow> string \<Rightarrow> string" where
  "pathName dotsRule base =
     (let afterDot = rev (takeWhile (\<lambda>c. c \<noteq> dot) (rev base));
          stem = take (length base - length afterDot - 1) base;
          noExt = (dot \<notin> set base \<or> stem = [] \<or> (base = [dot, dot] \<and> dotsRule))
      in if noExt then base else stem)"

text \<open>\<open>body\<close> is the path from the index where the scan stops: 1 if absolute, else 0.\<close>

definition parseBody :: "bool \<Rightarrow> string \<Rightarrow> parsedPath" where
  "parseBody isAbsolute body =
     (let trimmed = rev (dropWhile (\<lambda>c. c = slash) (rev body));
          base = rev (takeWhile (\<lambda>c. c \<noteq> slash) (rev trimmed));
          front = take (length trimmed - length base) trimmed;
          sawSlash = (front \<noteq> []);
          dir = (if sawSlash then (if isAbsolute then [slash] else []) @ butlast front
                 else if isAbsolute then [slash] else [])
      in \<lparr>pdir = dir, pname = pathName (sawSlash \<or> \<not> isAbsolute) base\<rparr>)"

definition path_parse :: "string \<Rightarrow> parsedPath" where
  "path_parse p =
     (if p = [] then \<lparr>pdir = [], pname = []\<rparr>
      else if hd p = slash then parseBody True (tl p)
      else parseBody False p)"

text \<open>
  The segment walk of \<open>path.normalize\<close>: empty segments and \<open>.\<close> are dropped,
  \<open>..\<close> removes the segment before it unless there is none or it is \<open>..\<close> itself,
  in which case it is kept for a relative path and dropped for an absolute one.
\<close>

fun normalizeSegments :: "bool \<Rightarrow> string list \<Rightarrow> string list \<Rightarrow> string list" where
  "normalizeSegments allowAboveRoot res [] = res"
| "normalizeSegments allowAboveRoot res (seg # segs) =
     (if seg = [] \<or> seg = [dot] then normalizeSegments allowAboveRoot res segs
      else if seg = [dot, dot] then
        (if res \<noteq> [] \<and> last res \<noteq> [dot, dot]
         then normalizeSegments allowAboveRoot (butlast res) segs
         else if allowAboveRoot
         then normalizeSegments allowAboveRoot (res @ [seg]) segs
         else normalizeSegments allowAboveRoot res segs)
      else normalizeSegments allowAboveRoot (res @ [seg]) segs)"

definition path_normalize :: "string \<Rightarrow> string" where
  "path_normalize p =
     (if p = [] then [dot]
      else
        let isAbsolute = (hd p = slash);
            trailingSeparator = (last p = slash);
            q = joinSlash (normalizeSegments (\<not> isAbsolute) [] (splitSlash p))
        in if q = [] then
             (if isAbsolute then [slash]
              else if trailingSeparator then [dot, slash] else [dot])
           else (if isAbsolute then [slash] else []) @ q @
                (if trailingSeparator then [slash] else []))"

text \<open>\<open>path.join(...args)\<close>: the non-empty arguments, joined by \<open>/\<close>, normalized.\<close>

definition path_join :: "string list \<Rightarrow> string" where
  "path_join args =
     (let parts = filter (\<lambda>a. a \<noteq> []) args
      in if parts = [] then [dot] else path_normalize (joinSlash parts))"

section \<open>The program: \<open>validateOptions\<close> and \<open>compressPdf\<close>\<close>

subsection \<open>Data\<close>

text \<open>
  The object that \<open>commander\<close> parses from the command line (the fields carry
  the prefix \<open>o_\<close> here): \<open>input\<close> is required,
  \<open>output\<close> is \<open>undefined\<close> (\<open>None\<close>) when \<open>-o\<close> is not given, \<open>level\<close> is the
  raw string of \<open>-l\<close> (\<open>'3'\<close> by default).
\<close>

record options =
  o_input :: string
  o_output :: "string option"
  o_level :: string
  o_verbose :: bool

text \<open>
  The same object as \<open>validateOptions\<close> returns it: \<open>output\<close> is set and \<open>level\<close>
  has become a number.
\<close>

record request =
  r_input :: string
  r_output :: string
  r_level :: int
  r_verbose :: bool

text \<open>
  The file system as \<open>fs.existsSync\<close> and \<open>fs.statSync\<close> see it: the size in bytes
  of what exists at a path, \<open>None\<close> where nothing exists.
\<close>

type_synonym filesystem = "string \<Rightarrow> nat option"

definition existsSync :: "filesystem \<Rightarrow> string \<Rightarrow> bool" where
  "existsSync fs p = (fs p \<noteq> None)"

text \<open>
  Every \<open>Error\<close> the program creates, named as in section 7 of the specification;
  \<open>EngineStartFailure\<close> is the spawn error other than \<open>ENOENT\<close>, which the
  specification does not name. The exit code of \<open>close\<close> is a number or \<open>null\<close>.
\<close>

datatype error =
    InputNotFound string
  | InvalidInputType
  | InvalidLevel
  | OutputMissing
  | EngineFailure "int option" string
  | EngineNotFound
  | EngineStartFailure string

definition showCode :: "int option \<Rightarrow> string" where
  "showCode code = (case code of None \<Rightarrow> ''null'' | Some n \<Rightarrow> showInt n)"

text \<open>The \<open>message\<close> of each \<open>Error\<close>, as the source writes it.\<close>

fun message :: "error \<Rightarrow> string" where
  "message (InputNotFound p) = ''Input file not found: '' @ p"
| "message InvalidInputType = ''Input file must be a PDF''"
| "message InvalidLevel = ''Compression level must be between 1 and 5''"
| "message OutputMissing =
     ''Output file was not created despite successful Ghostscript execution''"
| "message (EngineFailure code stderrData) =
     ''Ghostscript exited with code '' @ showCode code @ '': '' @ stderrData"
| "message EngineNotFound =
     ''Ghostscript (gs) executable not found. Please make sure Ghostscript is installed on your system.''"
| "message (EngineStartFailure m) = ''Failed to start Ghostscript process: '' @ m"

text \<open>
  A line written to the console. The three lines whose text comes from floating-point
  arithmetic and \<open>toFixed\<close> carry the byte counts they are computed from; \<open>render\<close>
  gives their text. \<open>StackLine m\<close> is the stack trace of the \<open>Error\<close> with message
  \<open>m\<close>, printed in verbose mode; its text is not modelled. Colours are left out.
\<close>

datatype console_line =
    Line string
  | InputSizeLine nat
  | OutputSizeLine nat
  | RatioLine nat nat
  | StackLine string

text \<open>Lines 70 and 141: \<open>(size / 1024 / 1024).toFixed(2)\<close>.\<close>

definition sizeMB :: "nat \<Rightarrow> string" where
  "sizeMB sizeBytes =
     toFixed 2 (numDivide (numDivide (toNumber sizeBytes) (toNumber 1024)) (toNumber 1024))"

text \<open>Line 142: \<open>(inputSizeBytes / outputSizeBytes).toFixed(2)\<close>.\<close>

definition compressionRatio :: "nat \<Rightarrow> nat \<Rightarrow> string" where
  "compressionRatio inputSizeBytes outputSizeBytes =
     toFixed 2 (numDivide (toNumber inputSizeBytes) (toNumber outputSizeBytes))"

text \<open>Line 143: \<open>((1 - outputSizeBytes / inputSizeBytes) * 100).toFixed(1)\<close>.\<close>

definition spaceSaved :: "nat \<Rightarrow> nat \<Rightarrow> string" where
  "spaceSaved inputSizeBytes outputSizeBytes =
     toFixed 1
       (numTimes
          (numMinus (toNumber 1) (numDivide (toNumber outputSizeBytes) (toNumber inputSizeBytes)))
          (toNumber 100))"

fun render :: "console_line \<Rightarrow> string" where
  "render (Line text) = text"
| "render (InputSizeLine n) = ''Input file size: '' @ sizeMB n @ '' MB''"
| "render (OutputSizeLine n) = ''Output file size: '' @ sizeMB n @ '' MB''"
| "render (RatioLine inputSizeBytes outputSizeBytes) =
     ''Compression ratio: '' @ compressionRatio inputSizeBytes outputSizeBytes @
     ''x ('' @ spaceSaved inputSizeBytes outputSizeBytes @ ''% smaller)''"
| "render (StackLine m) = []"

subsection \<open>\<open>validateOptions\<close> (index.js, lines 29-55)\<close>

text \<open>\<open>!options.output\<close>: \<open>undefined\<close> and the empty string are falsy.\<close>

definition noOutput :: "string option \<Rightarrow> bool" where
  "noOutput out = (case out of None \<Rightarrow> True | Some p \<Rightarrow> p = [])"

definition defaultOutput :: "string \<Rightarrow> string" where
  "defaultOutput inp =
     (let inputPath = path_parse inp
      in path_join [pdir inputPath, pname inputPath @ ''-compressed.pdf''])"

text \<open>
  The result is the lines logged and either the \<open>Error\<close> thrown or the object
  returned. The checks run in the order of the source: existence, suffix, default
  output (with its notice), level.
\<close>

definition validateOptions :: "filesystem \<Rightarrow> options \<Rightarrow> console_line list \<times> (error + request)" where
  "validateOptions fs opts =
     (if \<not> existsSync fs (o_input opts) then ([], Inl (InputNotFound (o_input opts)))
      else if \<not> endsWith (toLowerCase (o_input opts)) ''.pdf'' then ([], Inl InvalidInputType)
      else
        let (out, notes) =
              (if noOutput (o_output opts)
               then (defaultOutput (o_input opts),
                     [Line (''No output specified, using: '' @ defaultOutput (o_input opts))])
               else (case o_output opts of Some p \<Rightarrow> p | None \<Rightarrow> [], []))
        in case parseInt (o_level opts) of
             None \<Rightarrow> (notes, Inl InvalidLevel)
           | Some n \<Rightarrow>
               if n < 1 \<or> n > 5 then (notes, Inl InvalidLevel)
               else (notes,
                     Inr \<lparr>r_input = o_input opts, r_output = out, r_level = n,
                          r_verbose = o_verbose opts\<rparr>))"

subsection \<open>\<open>compressPdf\<close> up to the call of \<open>spawn\<close> (index.js, lines 58-101)\<close>

text \<open>Lines 86-92: the level's parameters, then the output file, then the input.\<close>

definition gsArgv :: "int \<Rightarrow> string \<Rightarrow> string \<Rightarrow> string list" where
  "gsArgv lvl out inp = (getGsOptionsForLevel lvl @ [''-sOutputFile='' @ out]) @ [inp]"

fun joinSpace :: "string list \<Rightarrow> string" where
  "joinSpace [] = []"
| "joinSpace [a] = a"
| "joinSpace (a # as) = a @ CHR '' '' # joinSpace as"

text \<open>
  What the handlers of the child process close over: the validated request, the
  size of the input and the argument vector given to \<open>spawn\<close>.
\<close>

record launch =
  l_request :: request
  l_inputSizeBytes :: nat
  l_command :: string
  l_args :: "string list"

text \<open>
  \<open>Inl e\<close>: \<open>validateOptions\<close> threw \<open>e\<close>, the \<open>catch\<close> of lines 175-181 printed it
  and ended the process with \<open>process.exit(1)\<close>; line 101 was not reached.
  \<open>Inr l\<close>: \<open>spawn(l_command l, l_args l)\<close> was called at line 101.
  \<open>fs.statSync\<close> reads the file system that \<open>validateOptions\<close> saw, where the input
  exists.
\<close>

definition compressPdf_launch :: "filesystem \<Rightarrow> options \<Rightarrow> console_line list \<times> (error + launch)" where
  "compressPdf_launch fs opts =
     (case validateOptions fs opts of
        (notes, Inl e) \<Rightarrow>
          (notes @ [Line (''Error: '' @ message e)] @
           (if o_verbose opts then [StackLine (message e)] else []), Inl e)
      | (notes, Inr req) \<Rightarrow>
          let inputSizeBytes = (case fs (r_input req) of Some n \<Rightarrow> n | None \<Rightarrow> 0);
              gsOptions = gsArgv (r_level req) (r_output req) (r_input req)
          in (notes @
              [Line ''Starting PDF compression...'',
               Line (''Input: '' @ r_input req),
               Line (''Output: '' @ r_output req),
               Line (''Compression level: '' @ showInt (r_level req)),
               InputSizeLine inputSizeBytes] @
              (if r_verbose req
               then [Line (''Ghostscript command: gs '' @ joinSpace gsOptions)] else []),
              Inr \<lparr>l_request = req, l_inputSizeBytes = inputSizeBytes,
                   l_command = ''gs'', l_args = gsOptions\<rparr>))"

text \<open>The call of \<open>spawn\<close> made by a run, if any.\<close>

definition spawnCall :: "console_line list \<times> (error + launch) \<Rightarrow> (string \<times> string list) option" where
  "spawnCall r = (case snd r of Inl e \<Rightarrow> None | Inr l \<Rightarrow> Some (l_command l, l_args l))"

subsection \<open>The handlers of the child process (index.js, lines 99-169)\<close>

text \<open>
  The state the handlers share: the value of the progress bar, whether the interval
  timer and the bar are active, the captured streams, the promise (\<open>None\<close> while
  pending, then the first settlement: later calls of \<open>resolve\<close> and \<open>reject\<close> change
  nothing), and the lines logged.
\<close>

record run =
  progress :: nat
  timer :: bool
  barActive :: bool
  stdoutData :: string
  stderrData :: string
  promise :: "(error + unit) option"
  console :: "console_line list"

datatype event =
    Tick
  | Stdout string
  | Stderr string
  | Close "int option"
  | SpawnError string string

text \<open>
  The state after \<open>progressBar.start(100, 0)\<close>, \<open>spawn\<close> and \<open>setInterval\<close>.
\<close>

definition initialRun :: run where
  "initialRun =
     \<lparr>progress = 0, timer = True, barActive = True, stdoutData = [], stderrData = [],
      promise = None, console = []\<rparr>"

definition settle :: "error + unit \<Rightarrow> run \<Rightarrow> run" where
  "settle r st = (if promise st = None then st\<lparr>promise := Some r\<rparr> else st)"

definition logLines :: "console_line list \<Rightarrow> run \<Rightarrow> run" where
  "logLines ls st = st\<lparr>console := console st @ ls\<rparr>"

text \<open>
  One callback. \<open>Tick\<close> is the interval's callback, which runs only until
  \<open>clearInterval\<close>; \<open>SpawnError code msg\<close> is the \<open>error\<close> event with \<open>err.code\<close> and
  \<open>err.message\<close>. \<open>fs\<close> is the file system at the time of the \<open>close\<close> event.
\<close>

fun handle :: "launch \<Rightarrow> filesystem \<Rightarrow> event \<Rightarrow> run \<Rightarrow> run" where
  "handle l fs Tick st =
     (if timer st then st\<lparr>progress := min (progress st + 5) 99\<rparr> else st)"
| "handle l fs (Stdout data) st =
     (let st1 = st\<lparr>stdoutData := stdoutData st @ data\<rparr>
      in if r_verbose (l_request l)
         then logLines [Line (''GS stdout: '' @ trim data)] st1 else st1)"
| "handle l fs (Stderr data) st =
     (let st1 = st\<lparr>stderrData := stderrData st @ data\<rparr>
      in if r_verbose (l_request l)
         then logLines [Line (''GS stderr: '' @ trim data)] st1 else st1)"
| "handle l fs (Close code) st =
     (let st1 = st\<lparr>timer := False\<rparr>
      in if code = Some 0 then
           (let st2 = st1\<lparr>progress := 100, barActive := False\<rparr>
            in case fs (r_output (l_request l)) of
                 Some outputSizeBytes \<Rightarrow>
                   settle (Inr ())
                     (logLines
                        [Line (CHR 0x0A # ''PDF compression completed successfully!''),
                         OutputSizeLine outputSizeBytes,
                         RatioLine (l_inputSizeBytes l) outputSizeBytes] st2)
               | None \<Rightarrow> settle (Inl OutputMissing) st2)
         else settle (Inl (EngineFailure code (stderrData st1))) (st1\<lparr>barActive := False\<rparr>))"
| "handle l fs (SpawnError code msg) st =
     (let st1 = st\<lparr>timer := False, barActive := False\<rparr>
      in if code = ''ENOENT'' then settle (Inl EngineNotFound) st1
         else settle (Inl (EngineStartFailure msg)) st1)"

text \<open>The callbacks of a run, in the order the event loop delivers them.\<close>

definition runEvents :: "launch \<Rightarrow> filesystem \<Rightarrow> event list \<Rightarrow> run \<Rightarrow> run" where
  "runEvents l fs evs st = foldl (\<lambda>s ev. handle l fs ev s) st evs"

section \<open>Notions used in the statements\<close>

text \<open>A file system given by its entries, for concrete runs.\<close>

definition fsOf :: "(string \<times> nat) list \<Rightarrow> filesystem" where
  "fsOf entries = map_of entries"


text \<open>
  The specification's "parses as an integer", written from its words and without
  \<open>parseInt\<close>: the whole argument is a decimal integer, an optional sign followed by
  one or more decimal digits and nothing else. \<open>decimalInteger raw\<close> is its value.
\<close>

definition isDecimalDigit :: "char \<Rightarrow> bool" where
  "isDecimalDigit c = (48 \<le> (of_char c :: nat) \<and> (of_char c :: nat) \<le> 57)"

definition decimalValue :: "string \<Rightarrow> nat" where
  "decimalValue ds = foldl (\<lambda>a c. a * 10 + (of_char c - 48)) 0 ds"

definition decimalInteger :: "string \<Rightarrow> int option" where
  "decimalInteger raw =
     (let signed = (raw \<noteq> [] \<and> (hd raw = CHR ''-'' \<or> hd raw = CHR ''+''));
          ds = (if signed then tl raw else raw)
      in if ds \<noteq> [] \<and> list_all isDecimalDigit ds
         then Some ((if raw \<noteq> [] \<and> hd raw = CHR ''-'' then - 1 else 1) * int (decimalValue ds))
         else None)"

text \<open>
  The argument does not begin with a number at all: after leading white space and an
  optional sign there is nothing, or something other than a decimal digit.
\<close>

definition noLeadingDigit :: "string \<Rightarrow> bool" where
  "noLeadingDigit raw =
     (let s = dropWhile isStrWhiteSpaceChar raw;
          t = (if s \<noteq> [] \<and> (hd s = CHR ''-'' \<or> hd s = CHR ''+'') then tl s else s)
      in case t of [] \<Rightarrow> True | c # cs \<Rightarrow> \<not> isDecimalDigit c)"

text \<open>The parameters of a level that follow the base options.\<close>

definition levelProfile :: "int \<Rightarrow> string list" where
  "levelProfile L = drop (length baseOptions) (getGsOptionsForLevel L)"

text \<open>The events that end a run: the child's \<open>close\<close> and the spawn \<open>error\<close>.\<close>

fun terminal :: "event \<Rightarrow> bool" where
  "terminal (Close code) = True"
| "terminal (SpawnError code msg) = True"
| "terminal ev = False"

text \<open>No event of the sequence ends the run: the child process is still running.\<close>

fun childRunning :: "event list \<Rightarrow> bool" where
  "childRunning [] = True"
| "childRunning (ev # evs) = (\<not> terminal ev \<and> childRunning evs)"

text \<open>The standard-error text delivered by a sequence of events.\<close>

fun stderrOf :: "event list \<Rightarrow> string" where
  "stderrOf [] = []"
| "stderrOf (Stderr data # evs) = data @ stderrOf evs"
| "stderrOf (ev # evs) = stderrOf evs"

text \<open>
  A path segment that \<open>path.normalize\<close> leaves alone: not empty, without a separator,
  and neither \<open>.\<close> nor \<open>..\<close>.
\<close>

definition plainSegment :: "string \<Rightarrow> bool" where
  "plainSegment seg = (seg \<noteq> [] \<and> slash \<notin> set seg \<and> seg \<noteq> [dot] \<and> seg \<noteq> [dot, dot])"

text \<open>A four-unit extension that is \<open>.pdf\<close> in some mix of cases.\<close>

definition pdfSuffix :: "string \<Rightarrow> bool" where
  "pdfSuffix e = (length e = 4 \<and> toLowerCase e = ''.pdf'')"

text \<open>
  What holds of the state after the events \<open>evs\<close>: the bar shows 100 only once exit
  code 0 was delivered, the promise is resolved only after exit code 0 with the output
  on disk, and the statistics line is printed only then, from the two sizes.
\<close>

definition reported :: "launch \<Rightarrow> filesystem \<Rightarrow> event list \<Rightarrow> run \<Rightarrow> bool" where
  "reported l fs evs st =
     ((progress st \<le> 99 \<or> (progress st = 100 \<and> Close (Some 0) \<in> set evs)) \<and>
      (promise st = Some (Inr ()) \<longrightarrow>
         Close (Some 0) \<in> set evs \<and> existsSync fs (r_output (l_request l))) \<and>
      (\<forall>a b. RatioLine a b \<in> set (console st) \<longrightarrow>
         Close (Some 0) \<in> set evs \<and> a = l_inputSizeBytes l \<and>
         fs (r_output (l_request l)) = Some b))"

text \<open>
  The scenario of section 8 of the specification: \<open>sample.pdf\<close> of 10 MB, no output
  path, the default level.
\<close>

definition sampleFs :: filesystem where
  "sampleFs = fsOf [(''sample.pdf'', 10485760)]"

definition sampleOptions :: options where
  "sampleOptions = \<lparr>o_input = ''sample.pdf'', o_output = None, o_level = ''3'', o_verbose = False\<rparr>"

definition sampleRequest :: request where
  "sampleRequest =
     \<lparr>r_input = ''sample.pdf'', r_output = ''sample-compressed.pdf'', r_level = 3,
      r_verbose = False\<rparr>"

text \<open>The same file system once the engine has written the output, of 4 MB.\<close>

definition sampleFsAfter :: filesystem where
  "sampleFsAfter = fsOf [(''sample.pdf'', 10485760), (''sample-compressed.pdf'', 4194304)]"

definition sampleLaunch :: launch where
  "sampleLaunch =
     \<lparr>l_request = sampleRequest, l_inputSizeBytes = 10485760, l_command = ''gs'',
      l_args = gsArgv 3 ''sample-compressed.pdf'' ''sample.pdf''\<rparr>"

text \<open>
  An empty input file, and the file system once the engine has left an empty output.
\<close>

definition emptyFs :: filesystem where
  "emptyFs = fsOf [(''empty.pdf'', 0)]"

definition emptyFsAfter :: filesystem where
  "emptyFsAfter = fsOf [(''empty.pdf'', 0), (''empty-compressed.pdf'', 0)]"

definition emptyOptions :: options where
  "emptyOptions = \<lparr>o_input = ''empty.pdf'', o_output = None, o_level = ''3'', o_verbose = False\<rparr>"

definition emptyLaunch :: launch where
  "emptyLaunch =
     \<lparr>l_request =
        \<lparr>r_input = ''empty.pdf'', r_output = ''empty-compressed.pdf'', r_level = 3,
         r_verbose = False\<rparr>,
      l_inputSizeBytes = 0, l_command = ''gs'',
      l_args = gsArgv 3 ''empty-compressed.pdf'' ''empty.pdf''\<rparr>"

text \<open>
  A request with an explicit output path at level 5.
\<close>

definition explicitOptions :: options where
  "explicitOptions =
     \<lparr>o_input = ''sample.pdf'', o_output = Some ''out/small.pdf'', o_level = ''5'',
      o_verbose = False\<rparr>"

section \<open>Theorems\<close>

subsection \<open>Characters and small evaluations\<close>

lemma char_of_eq: "char_of (n::nat) = c \<longleftrightarrow> n mod 256 = of_char c"
  by (simp add: char_of_eq_iff take_bit_eq_mod)

lemma lower_dot: "toLowerCaseChar c = CHR ''.'' \<Longrightarrow> c = CHR ''.''"
  by (auto simp add: toLowerCaseChar_def Let_def char_of_eq split: if_splits)

lemma lower_letter:
  "toLowerCaseChar c = x \<Longrightarrow> 97 \<le> (of_char x :: nat) \<Longrightarrow> of_char x \<le> (122::nat) \<Longrightarrow>
   c \<noteq> CHR ''/'' \<and> c \<noteq> CHR ''.''"
  by (auto simp add: toLowerCaseChar_def Let_def char_of_eq split: if_splits)

lemmas parseInt_defs =
  parseInt_def isStrWhiteSpaceChar_def isRadixDigit_def digitValue_def digitsValue_def

lemma parseInt_examples:
  "parseInt ''0'' = Some 0" "parseInt ''6'' = Some 6" "parseInt ''abc'' = None"
  "parseInt ''3'' = Some 3"
  by (simp_all add: parseInt_defs)

lemma txt_not_pdf: "\<not> endsWith (toLowerCase ''notes.txt'') ''.pdf''"
  by (simp add: endsWith_def toLowerCase_def toLowerCaseChar_def)

lemma sample_pdf: "endsWith (toLowerCase ''sample.pdf'') ''.pdf''"
  by (simp add: endsWith_def toLowerCase_def toLowerCaseChar_def)

lemma sampleFs_entries:
  "existsSync sampleFs ''sample.pdf''" "\<not> existsSync sampleFs ''notes.txt''"
  "\<not> existsSync sampleFs ''missing.pdf''"
  by (simp_all add: existsSync_def sampleFs_def fsOf_def)

subsection \<open>Integers as the specification reads them\<close>

lemma digit_value: "isDecimalDigit c \<Longrightarrow> digitValue c = Some (of_char c - 48)"
  by (simp add: isDecimalDigit_def digitValue_def)

lemma digit_radix10: "isRadixDigit 10 c \<longleftrightarrow> isDecimalDigit c"
  by (auto simp add: isRadixDigit_def isDecimalDigit_def digitValue_def Let_def split: if_splits)

lemma digit_not_space: "isDecimalDigit c \<Longrightarrow> \<not> isStrWhiteSpaceChar c"
  by (auto simp add: isDecimalDigit_def isStrWhiteSpaceChar_def Let_def)

lemma digit_not_special:
  "isDecimalDigit c \<Longrightarrow> c \<noteq> CHR ''-'' \<and> c \<noteq> CHR ''+'' \<and> c \<noteq> CHR ''x'' \<and> c \<noteq> CHR ''X''"
  by (auto simp add: isDecimalDigit_def)

lemma sign_not_space:
  "\<not> isStrWhiteSpaceChar (CHR ''-'')" "\<not> isStrWhiteSpaceChar (CHR ''+'')"
  by (simp_all add: isStrWhiteSpaceChar_def)

lemma digits_foldl:
  "list_all isDecimalDigit ds \<Longrightarrow>
   foldl (\<lambda>a c. a * 10 + (case digitValue c of None \<Rightarrow> 0 | Some d \<Rightarrow> d)) acc ds
     = foldl (\<lambda>a c. a * 10 + (of_char c - 48)) acc ds"
  by (induction ds arbitrary: acc) (simp_all add: digit_value)

lemma digits_value: "list_all isDecimalDigit ds \<Longrightarrow> digitsValue 10 ds = decimalValue ds"
  using digits_foldl [of ds 0] by (simp add: digitsValue_def decimalValue_def)

lemma digits_takeWhile: "list_all isDecimalDigit ds \<Longrightarrow> takeWhile (isRadixDigit 10) ds = ds"
  by (induction ds) (simp_all add: digit_radix10)

lemma digits_not_hex:
  "list_all isDecimalDigit ds \<Longrightarrow> take 2 ds \<noteq> ''0x'' \<and> take 2 ds \<noteq> ''0X''"
proof (cases ds)
  case Nil
  then show ?thesis by simp
next
  case (Cons c cs)
  assume all: "list_all isDecimalDigit ds"
  show ?thesis
  proof (cases cs)
    case Nil
    then show ?thesis using Cons by simp
  next
    case (Cons d rest)
    then have "isDecimalDigit d" using all \<open>ds = c # cs\<close> by simp
    then show ?thesis using digit_not_special [of d] Cons \<open>ds = c # cs\<close> by simp
  qed
qed

lemma parseInt_digits:
  assumes "ds \<noteq> []" and "list_all isDecimalDigit ds"
    and "S1 = ds" and "\<not> isStrWhiteSpaceChar (hd raw)" and "raw \<noteq> []"
    and "(if hd raw = CHR ''+'' \<or> hd raw = CHR ''-'' then tl raw else raw) = ds"
  shows "parseInt raw = Some ((if hd raw = CHR ''-'' then - 1 else 1) * int (decimalValue ds))"
proof -
  have S: "dropWhile isStrWhiteSpaceChar raw = raw"
    using assms(4,5) by (cases raw) simp_all
  show ?thesis
    unfolding parseInt_def S Let_def
    using assms(1,5,6) digits_not_hex [OF assms(2)]
    by (simp add: digits_takeWhile [OF assms(2)] digits_value [OF assms(2)])
qed

lemma decimalInteger_parseInt:
  assumes "decimalInteger raw = Some n"
  shows "parseInt raw = Some n"
proof -
  define ds where "ds = (if raw \<noteq> [] \<and> (hd raw = CHR ''-'' \<or> hd raw = CHR ''+'') then tl raw else raw)"
  have ds: "ds \<noteq> []" "list_all isDecimalDigit ds"
    and n: "n = (if raw \<noteq> [] \<and> hd raw = CHR ''-'' then - 1 else 1) * int (decimalValue ds)"
    using assms by (auto simp add: decimalInteger_def Let_def ds_def split: if_splits)
  have ne: "raw \<noteq> []" using ds(1) by (auto simp add: ds_def split: if_splits)
  have nsp: "\<not> isStrWhiteSpaceChar (hd raw)"
  proof (cases "hd raw = CHR ''-'' \<or> hd raw = CHR ''+''")
    case True
    then show ?thesis using sign_not_space by auto
  next
    case False
    then have "raw = ds" using ne by (simp add: ds_def)
    then have "isDecimalDigit (hd raw)" using ds by (cases ds) auto
    then show ?thesis by (rule digit_not_space)
  qed
  have "(if hd raw = CHR ''+'' \<or> hd raw = CHR ''-'' then tl raw else raw) = ds"
    using ne by (auto simp add: ds_def)
  then show ?thesis
    using parseInt_digits [OF ds refl nsp ne] n ne by simp
qed


lemma decimal_examples:
  "decimalInteger ''0'' = Some 0" "decimalInteger ''6'' = Some 6" "decimalInteger ''3'' = Some 3"
  "decimalInteger ''5'' = Some 5"
  "decimalInteger ''abc'' = None" "decimalInteger ''2abc'' = None" "noLeadingDigit ''abc''"
  by (simp_all add: decimalInteger_def decimalValue_def isDecimalDigit_def noLeadingDigit_def
      isStrWhiteSpaceChar_def)

subsection \<open>The level table\<close>

lemma level_cases:
  "1 \<le> L \<Longrightarrow> L \<le> 5 \<Longrightarrow> L = 1 \<or> L = 2 \<or> L = 3 \<or> L = 4 \<or> L = (5::int)"
  by arith

lemma options_level_1: "matches_table 1 (getGsOptionsForLevel 1)"
  by code_simp

lemma options_level_2: "matches_table 2 (getGsOptionsForLevel 2)"
  by code_simp

lemma options_level_3: "matches_table 3 (getGsOptionsForLevel 3)"
  by code_simp

lemma options_level_4: "matches_table 4 (getGsOptionsForLevel 4)"
  by code_simp

lemma options_level_5: "matches_table 5 (getGsOptionsForLevel 5)"
  by code_simp

text \<open>
  Claim C1. For every level L from 1 to 5, the parameter list of
  \<open>getGsOptionsForLevel L\<close> sets each directive of the specification's table exactly
  once and to the table's value: quality preset, compatibility version, the three
  image resolutions, the three downsampling algorithms and the JPEG quality; the six
  extra flags are set, to the table's values, at level 5 and are absent at levels 1
  to 4.
\<close>

theorem level_options_match_table:
  "1 \<le> L \<Longrightarrow> L \<le> 5 \<Longrightarrow> matches_table L (getGsOptionsForLevel L)"
  using level_cases [of L] options_level_1 options_level_2 options_level_3
    options_level_4 options_level_5
  by auto

theorem level_options_match_table_witness:
  "(1::int) \<le> 5 \<and> (5::int) \<le> 5 \<and> matches_table 5 (getGsOptionsForLevel 5) \<and>
   directive ''JPEGQ'' (getGsOptionsForLevel 5) = [''50''] \<and>
   directive ''Optimize'' (getGsOptionsForLevel 5) = [''true''] \<and>
   directive ''Optimize'' (getGsOptionsForLevel 4) = []"
proof -
  have m5: "matches_table 5 (getGsOptionsForLevel 5)"
    using level_options_match_table [of 5] by simp
  have m4: "matches_table 4 (getGsOptionsForLevel 4)"
    using level_options_match_table [of 4] by simp
  show ?thesis
    using m5 m4 by (simp add: matches_table_def table_jpegq_def table_extra_def extra_keys_def)
qed

subsection \<open>The argument vector\<close>

lemma options_split: "getGsOptionsForLevel L = baseOptions @ levelProfile L"
  by (simp add: getGsOptionsForLevel.simps [of L] getGsOptionsForLevel.simps [of 3]
      levelProfile_def baseOptions_def)

lemma profile_level_1: "matches_table 1 (levelProfile 1)"
  by code_simp

lemma profile_level_2: "matches_table 2 (levelProfile 2)"
  by code_simp

lemma profile_level_3: "matches_table 3 (levelProfile 3)"
  by code_simp

lemma profile_level_4: "matches_table 4 (levelProfile 4)"
  by code_simp

lemma profile_level_5: "matches_table 5 (levelProfile 5)"
  by code_simp

lemma profile_matches_table: "1 \<le> L \<Longrightarrow> L \<le> 5 \<Longrightarrow> matches_table L (levelProfile L)"
  using level_cases [of L] profile_level_1 profile_level_2 profile_level_3
    profile_level_4 profile_level_5
  by auto

lemma validate_success:
  "validateOptions fs opts = (ns, Inr req) \<Longrightarrow>
   existsSync fs (o_input opts) \<and> endsWith (toLowerCase (o_input opts)) ''.pdf'' \<and>
   parseInt (o_level opts) = Some (r_level req) \<and> 1 \<le> r_level req \<and> r_level req \<le> 5 \<and>
   r_input req = o_input opts \<and> r_verbose req = o_verbose opts"
  by (auto simp add: validateOptions_def Let_def split: option.splits prod.splits if_splits)

lemma validate_failure_no_spawn:
  "snd (validateOptions fs opts) = Inl e \<Longrightarrow> spawnCall (compressPdf_launch fs opts) = None"
  by (cases "validateOptions fs opts") (simp add: compressPdf_launch_def spawnCall_def)

lemma sample_default: "defaultOutput ''sample.pdf'' = ''sample-compressed.pdf''"
  by code_simp

lemma sample_validate:
  "validateOptions sampleFs sampleOptions =
     ([Line ''No output specified, using: sample-compressed.pdf''], Inr sampleRequest)"
  by (simp add: validateOptions_def sampleFs_def sampleOptions_def sampleRequest_def fsOf_def
      existsSync_def endsWith_def toLowerCase_def toLowerCaseChar_def noOutput_def
      sample_default parseInt_examples)

lemma sample_launch:
  "compressPdf_launch sampleFs sampleOptions =
     ([Line ''No output specified, using: sample-compressed.pdf'',
       Line ''Starting PDF compression...'',
       Line ''Input: sample.pdf'',
       Line ''Output: sample-compressed.pdf'',
       Line ''Compression level: 3'',
       InputSizeLine 10485760],
      Inr sampleLaunch)"
  unfolding compressPdf_launch_def sample_validate
  by (simp add: sampleRequest_def sampleLaunch_def sampleFs_def fsOf_def showInt_def
      showNat.simps char_of_eq)

lemma launch_args:
  assumes "existsSync fs (o_input opts)" and "endsWith (toLowerCase (o_input opts)) ''.pdf''"
    and "parseInt (o_level opts) = Some L" and "1 \<le> L" and "L \<le> 5"
  shows "spawnCall (compressPdf_launch fs opts) =
    Some (''gs'',
          gsArgv L (if noOutput (o_output opts) then defaultOutput (o_input opts)
                    else (case o_output opts of Some p \<Rightarrow> p | None \<Rightarrow> []))
            (o_input opts))"
  using assms
  by (simp add: compressPdf_launch_def validateOptions_def spawnCall_def Let_def)

lemma base_literal:
  "baseOptions = [''-sDEVICE=pdfwrite'', ''-dNOPAUSE'', ''-dQUIET'', ''-dBATCH'', ''-dSAFER'']"
  by (simp add: baseOptions_def)

text \<open>
  Claim C2. For every level L from 1 to 5, the parameters of \<open>getGsOptionsForLevel L\<close>
  are \<open>-sDEVICE=pdfwrite\<close>, \<open>-dNOPAUSE\<close>, \<open>-dQUIET\<close>, \<open>-dBATCH\<close>, \<open>-dSAFER\<close> and then
  the parameters of level L, which carry the table's directives for L. A request
  whose input exists and ends in \<open>.pdf\<close> and whose level argument is the integer L
  spawns \<open>gs\<close> with exactly these, then \<open>-sOutputFile=\<close> with the output path (the one
  given, or the derived one if none is given), then the input path as the last
  element.
\<close>

theorem argument_vector_layout:
  assumes "1 \<le> L" and "L \<le> 5"
  shows "getGsOptionsForLevel L =
           [''-sDEVICE=pdfwrite'', ''-dNOPAUSE'', ''-dQUIET'', ''-dBATCH'', ''-dSAFER''] @
           levelProfile L \<and>
         matches_table L (levelProfile L) \<and>
         (existsSync fs (o_input opts) \<and> endsWith (toLowerCase (o_input opts)) ''.pdf'' \<and>
          decimalInteger (o_level opts) = Some L \<longrightarrow>
            (o_output opts = Some out \<and> out \<noteq> [] \<longrightarrow>
               spawnCall (compressPdf_launch fs opts) =
                 Some (''gs'',
                       [''-sDEVICE=pdfwrite'', ''-dNOPAUSE'', ''-dQUIET'', ''-dBATCH'', ''-dSAFER''] @
                       levelProfile L @ [''-sOutputFile='' @ out] @ [o_input opts])) \<and>
            (noOutput (o_output opts) \<longrightarrow>
               spawnCall (compressPdf_launch fs opts) =
                 Some (''gs'',
                       [''-sDEVICE=pdfwrite'', ''-dNOPAUSE'', ''-dQUIET'', ''-dBATCH'', ''-dSAFER''] @
                       levelProfile L @ [''-sOutputFile='' @ defaultOutput (o_input opts)] @
                       [o_input opts])) \<and>
            (\<exists>args. spawnCall (compressPdf_launch fs opts) = Some (''gs'', args) \<and>
               last args = o_input opts))"
proof (intro conjI impI)
  show split: "getGsOptionsForLevel L =
      [''-sDEVICE=pdfwrite'', ''-dNOPAUSE'', ''-dQUIET'', ''-dBATCH'', ''-dSAFER''] @
      levelProfile L"
    using options_split [of L] by (simp add: base_literal)
  show "matches_table L (levelProfile L)"
    using assms by (rule profile_matches_table)
  assume ok: "existsSync fs (o_input opts) \<and> endsWith (toLowerCase (o_input opts)) ''.pdf'' \<and>
    decimalInteger (o_level opts) = Some L"
  then have "parseInt (o_level opts) = Some L"
    using decimalInteger_parseInt by blast
  then have spawn: "spawnCall (compressPdf_launch fs opts) =
    Some (''gs'',
          gsArgv L (if noOutput (o_output opts) then defaultOutput (o_input opts)
                    else (case o_output opts of Some p \<Rightarrow> p | None \<Rightarrow> []))
            (o_input opts))"
    using ok assms launch_args by blast
  then show "\<exists>args. spawnCall (compressPdf_launch fs opts) = Some (''gs'', args) \<and>
      last args = o_input opts"
    by (simp add: gsArgv_def)
  {
    assume "o_output opts = Some out \<and> out \<noteq> []"
    then show "spawnCall (compressPdf_launch fs opts) =
      Some (''gs'',
            [''-sDEVICE=pdfwrite'', ''-dNOPAUSE'', ''-dQUIET'', ''-dBATCH'', ''-dSAFER''] @
            levelProfile L @ [''-sOutputFile='' @ out] @ [o_input opts])"
      using spawn split by (simp add: gsArgv_def noOutput_def)
  }
  {
    assume "noOutput (o_output opts)"
    then show "spawnCall (compressPdf_launch fs opts) =
      Some (''gs'',
            [''-sDEVICE=pdfwrite'', ''-dNOPAUSE'', ''-dQUIET'', ''-dBATCH'', ''-dSAFER''] @
            levelProfile L @ [''-sOutputFile='' @ defaultOutput (o_input opts)] @
            [o_input opts])"
      using spawn split by (simp add: gsArgv_def)
  }
qed

theorem argument_vector_layout_witness:
  "decimalInteger (o_level sampleOptions) = Some 3 \<and>
   decimalInteger (o_level explicitOptions) = Some 5 \<and>
   existsSync sampleFs ''sample.pdf'' \<and> endsWith (toLowerCase ''sample.pdf'') ''.pdf'' \<and>
   spawnCall (compressPdf_launch sampleFs sampleOptions) =
     Some (''gs'',
           [''-sDEVICE=pdfwrite'', ''-dNOPAUSE'', ''-dQUIET'', ''-dBATCH'', ''-dSAFER''] @
           levelProfile 3 @ [''-sOutputFile=sample-compressed.pdf''] @ [''sample.pdf'']) \<and>
   spawnCall (compressPdf_launch sampleFs explicitOptions) =
     Some (''gs'',
           [''-sDEVICE=pdfwrite'', ''-dNOPAUSE'', ''-dQUIET'', ''-dBATCH'', ''-dSAFER''] @
           levelProfile 5 @ [''-sOutputFile=out/small.pdf''] @ [''sample.pdf''])"
proof -
  have lv: "decimalInteger (o_level sampleOptions) = Some 3"
    "decimalInteger (o_level explicitOptions) = Some 5"
    by (simp_all add: sampleOptions_def explicitOptions_def decimal_examples)
  have inp: "o_input sampleOptions = ''sample.pdf''" "o_input explicitOptions = ''sample.pdf''"
    "noOutput (o_output sampleOptions)" "o_output explicitOptions = Some ''out/small.pdf''"
    by (simp_all add: sampleOptions_def explicitOptions_def noOutput_def)
  show ?thesis
    using argument_vector_layout [of 3 sampleFs sampleOptions "[]"]
      argument_vector_layout [of 5 sampleFs explicitOptions "''out/small.pdf''"]
      lv inp sampleFs_entries sample_pdf sample_default
    by simp
qed

subsection \<open>Validation\<close>

lemma validate_missing:
  "\<not> existsSync fs (o_input opts) \<Longrightarrow>
   validateOptions fs opts = ([], Inl (InputNotFound (o_input opts)))"
  by (simp add: validateOptions_def)

lemma validate_not_pdf:
  "existsSync fs (o_input opts) \<Longrightarrow> \<not> endsWith (toLowerCase (o_input opts)) ''.pdf'' \<Longrightarrow>
   validateOptions fs opts = ([], Inl InvalidInputType)"
  by (simp add: validateOptions_def)









text \<open>
  Claim C4, as stated, fails: a path that does not exist and does not end in \<open>.pdf\<close>
  is rejected with \<open>InputNotFound\<close>, not with \<open>InvalidInputType\<close>.
\<close>

theorem input_type_counterexample:
  "\<not> endsWith (toLowerCase ''notes.txt'') ''.pdf'' \<and>
   validateOptions sampleFs
     \<lparr>o_input = ''notes.txt'', o_output = None, o_level = ''3'', o_verbose = False\<rparr>
     = ([], Inl (InputNotFound ''notes.txt'')) \<and>
   snd (validateOptions sampleFs
     \<lparr>o_input = ''notes.txt'', o_output = None, o_level = ''3'', o_verbose = False\<rparr>)
     \<noteq> Inl InvalidInputType"
  by (simp add: txt_not_pdf validateOptions_def sampleFs_entries)

text \<open>
  Claim C4, amended. Validation fails with \<open>InputNotFound\<close> if the input path does
  not reference anything that exists, and with \<open>InvalidInputType\<close> if the path exists
  and does not end with \<open>.pdf\<close> in any mix of cases; in both cases no subprocess is
  spawned.
\<close>

theorem input_path_rejected:
  "(\<not> existsSync fs (o_input opts) \<longrightarrow>
      validateOptions fs opts = ([], Inl (InputNotFound (o_input opts))) \<and>
      spawnCall (compressPdf_launch fs opts) = None) \<and>
   (existsSync fs (o_input opts) \<and> \<not> endsWith (toLowerCase (o_input opts)) ''.pdf'' \<longrightarrow>
      validateOptions fs opts = ([], Inl InvalidInputType) \<and>
      spawnCall (compressPdf_launch fs opts) = None)"
proof (intro conjI impI)
  assume "\<not> existsSync fs (o_input opts)"
  then show v: "validateOptions fs opts = ([], Inl (InputNotFound (o_input opts)))"
    by (rule validate_missing)
  show "spawnCall (compressPdf_launch fs opts) = None"
    using v validate_failure_no_spawn [of fs opts] by simp
next
  assume "existsSync fs (o_input opts) \<and> \<not> endsWith (toLowerCase (o_input opts)) ''.pdf''"
  then show v: "validateOptions fs opts = ([], Inl InvalidInputType)"
    using validate_not_pdf by blast
  show "spawnCall (compressPdf_launch fs opts) = None"
    using v validate_failure_no_spawn [of fs opts] by simp
qed

theorem input_path_rejected_witness:
  "\<not> existsSync sampleFs ''missing.pdf'' \<and>
   validateOptions sampleFs (sampleOptions\<lparr>o_input := ''missing.pdf''\<rparr>)
     = ([], Inl (InputNotFound ''missing.pdf'')) \<and>
   spawnCall (compressPdf_launch sampleFs (sampleOptions\<lparr>o_input := ''missing.pdf''\<rparr>)) = None \<and>
   existsSync (fsOf [(''notes.txt'', 12)]) ''notes.txt'' \<and>
   \<not> endsWith (toLowerCase ''notes.txt'') ''.pdf'' \<and>
   validateOptions (fsOf [(''notes.txt'', 12)]) (sampleOptions\<lparr>o_input := ''notes.txt''\<rparr>)
     = ([], Inl InvalidInputType) \<and>
   spawnCall (compressPdf_launch (fsOf [(''notes.txt'', 12)])
     (sampleOptions\<lparr>o_input := ''notes.txt''\<rparr>)) = None"
proof -
  have ex: "existsSync (fsOf [(''notes.txt'', 12)]) ''notes.txt''"
    by (simp add: existsSync_def fsOf_def)
  show ?thesis
    using input_path_rejected [of sampleFs "sampleOptions\<lparr>o_input := ''missing.pdf''\<rparr>"]
      input_path_rejected [of "fsOf [(''notes.txt'', 12)]" "sampleOptions\<lparr>o_input := ''notes.txt''\<rparr>"]
      ex txt_not_pdf sampleFs_entries
    by simp
qed

text \<open>
  Claim C10. Existence is checked before the extension: for every path that does not
  exist, validation fails with \<open>InputNotFound\<close>, whatever its suffix, so that
  \<open>InvalidInputType\<close> is raised only for paths that exist.
\<close>

theorem existence_checked_first:
  "(\<not> existsSync fs (o_input opts) \<longrightarrow>
      snd (validateOptions fs opts) = Inl (InputNotFound (o_input opts))) \<and>
   (snd (validateOptions fs opts) = Inl InvalidInputType \<longrightarrow> existsSync fs (o_input opts))"
  by (auto simp add: validateOptions_def Let_def split: option.splits prod.splits if_splits)

theorem existence_checked_first_witness:
  "\<not> existsSync sampleFs ''notes.txt'' \<and>
   \<not> endsWith (toLowerCase ''notes.txt'') ''.pdf'' \<and>
   snd (validateOptions sampleFs (sampleOptions\<lparr>o_input := ''notes.txt''\<rparr>))
     = Inl (InputNotFound ''notes.txt'') \<and>
   snd (validateOptions (fsOf [(''notes.txt'', 12)]) (sampleOptions\<lparr>o_input := ''notes.txt''\<rparr>))
     = Inl InvalidInputType \<and>
   existsSync (fsOf [(''notes.txt'', 12)]) ''notes.txt''"
proof -
  have ex: "existsSync (fsOf [(''notes.txt'', 12)]) ''notes.txt''"
    by (simp add: existsSync_def fsOf_def)
  have ty: "snd (validateOptions (fsOf [(''notes.txt'', 12)])
      (sampleOptions\<lparr>o_input := ''notes.txt''\<rparr>)) = Inl InvalidInputType"
    using ex txt_not_pdf by (simp add: validateOptions_def)
  show ?thesis
    using existence_checked_first [of sampleFs "sampleOptions\<lparr>o_input := ''notes.txt''\<rparr>"]
      existence_checked_first [of "fsOf [(''notes.txt'', 12)]" "sampleOptions\<lparr>o_input := ''notes.txt''\<rparr>"]
      ty txt_not_pdf sampleFs_entries
    by simp
qed

subsection \<open>Paths\<close>

lemma plain_ends: "plainSegment seg \<Longrightarrow> hd seg \<noteq> slash \<and> last seg \<noteq> slash"
  unfolding plainSegment_def by (metis hd_in_set last_in_set)

lemma joinSlash_snoc: "joinSlash (ds @ [x]) = (if ds = [] then x else joinSlash ds @ slash # x)"
  by (induction ds rule: joinSlash.induct) simp_all

lemma joinSlash_nonempty:
  "ds \<noteq> [] \<Longrightarrow> list_all plainSegment ds \<Longrightarrow>
   joinSlash ds \<noteq> [] \<and> hd (joinSlash ds) \<noteq> slash \<and> last (joinSlash ds) \<noteq> slash"
proof (induction ds rule: joinSlash.induct)
  case 1
  then show ?case by simp
next
  case (2 seg)
  then show ?case using plain_ends [of seg] by (simp add: plainSegment_def)
next
  case (3 seg v va)
  then show ?case using plain_ends [of seg] by (simp add: plainSegment_def)
qed

lemma splitSlash_noslash: "slash \<notin> set s \<Longrightarrow> splitSlash s = [s]"
  by (induction s) (auto split: list.splits)

lemma splitSlash_append: "slash \<notin> set s \<Longrightarrow> splitSlash (s @ slash # t) = s # splitSlash t"
  by (induction s) (auto split: list.splits)

lemma splitSlash_joinSlash:
  "ds \<noteq> [] \<Longrightarrow> list_all (\<lambda>d. slash \<notin> set d) ds \<Longrightarrow> splitSlash (joinSlash ds) = ds"
proof (induction ds rule: joinSlash.induct)
  case 1
  then show ?case by simp
next
  case (2 seg)
  then show ?case by (simp add: splitSlash_noslash)
next
  case (3 seg v va)
  then show ?case by (simp add: splitSlash_append)
qed

lemma normalizeSegments_plain:
  "list_all plainSegment segs \<Longrightarrow> normalizeSegments allow res segs = res @ segs"
  by (induction segs arbitrary: res) (auto simp add: plainSegment_def)

lemma takeWhile_rev_tail:
  assumes "slash \<notin> set x" and "P = [] \<or> last P = slash"
  shows "rev (takeWhile (\<lambda>c. c \<noteq> slash) (rev (P @ x))) = x"
proof (cases P rule: rev_cases)
  case Nil
  have "\<forall>c\<in>set (rev x). c \<noteq> slash" using assms(1) by auto
  then have "takeWhile (\<lambda>c. c \<noteq> slash) (rev x) = rev x" by simp
  then show ?thesis unfolding Nil by (simp only: append_Nil rev_rev_ident)
next
  case (snoc Q c)
  then have "c = slash" using assms(2) by simp
  then have "takeWhile (\<lambda>c. c \<noteq> slash) (rev x @ slash # rev Q) = rev x"
    using assms(1) by (subst takeWhile_append2) auto
  then show ?thesis using snoc \<open>c = slash\<close> by simp
qed

lemma dropWhile_rev_id:
  "p \<noteq> [] \<Longrightarrow> last p \<noteq> slash \<Longrightarrow> rev (dropWhile (\<lambda>c. c = slash) (rev p)) = p"
  by (cases p rule: rev_cases) simp_all

lemma pdfSuffix_shape:
  "pdfSuffix e \<Longrightarrow> \<exists>c1 c2 c3. e = [dot, c1, c2, c3] \<and> dot \<notin> set [c1, c2, c3] \<and> slash \<notin> set e"
proof -
  assume "pdfSuffix e"
  then obtain c0 c1 c2 c3
    where e: "e = [c0, c1, c2, c3]" and l: "map toLowerCaseChar e = ''.pdf''"
    by (auto simp add: pdfSuffix_def toLowerCase_def length_Suc_conv numeral_eq_Suc)
  from e l have "c0 = dot"
    using lower_dot [of c0] by (simp add: dot_def)
  moreover from e l have "c1 \<noteq> slash \<and> c1 \<noteq> dot"
    using lower_letter [of c1 "CHR ''p''"] by (simp add: dot_def slash_def)
  moreover from e l have "c2 \<noteq> slash \<and> c2 \<noteq> dot"
    using lower_letter [of c2 "CHR ''d''"] by (simp add: dot_def slash_def)
  moreover from e l have "c3 \<noteq> slash \<and> c3 \<noteq> dot"
    using lower_letter [of c3 "CHR ''f''"] by (simp add: dot_def slash_def)
  ultimately show ?thesis using e by (auto simp add: dot_def slash_def)
qed

lemma pathName_pdf:
  assumes b: "b \<noteq> []" and e: "pdfSuffix e"
  shows "pathName r (b @ e) = b"
proof -
  obtain c1 c2 c3
    where es: "e = [dot, c1, c2, c3]" "dot \<notin> set [c1, c2, c3]" "slash \<notin> set e"
    using pdfSuffix_shape [OF e] by blast
  show ?thesis using es b by (auto simp add: pathName_def Let_def)
qed

lemma parseBody_plain:
  assumes x: "slash \<notin> set x" "x \<noteq> []" and P: "P = [] \<or> P = Q @ [slash]"
  shows "parseBody ab (P @ x) =
           \<lparr>pdir = (if P = [] then (if ab then [slash] else [])
                     else (if ab then [slash] else []) @ Q),
            pname = pathName (P \<noteq> [] \<or> \<not> ab) x\<rparr>"
proof -
  have lx: "last x \<noteq> slash" using x by (metis last_in_set)
  have trimmed: "rev (dropWhile (\<lambda>c. c = slash) (rev (P @ x))) = P @ x"
    using dropWhile_rev_id [of "P @ x"] x lx by simp
  have Pl: "P = [] \<or> last P = slash" using P by auto
  have base: "rev (takeWhile (\<lambda>c. c \<noteq> slash) (rev (P @ x))) = x"
    using takeWhile_rev_tail [OF x(1) Pl] .
  have front: "take (length (P @ x) - length x) (P @ x) = P" by simp
  have bl: "P \<noteq> [] \<Longrightarrow> butlast P = Q" using P by auto
  show ?thesis
    unfolding parseBody_def Let_def trimmed base front
    using bl by simp
qed

lemma parse_relative:
  assumes ds: "list_all plainSegment ds"
    and b: "b \<noteq> []" "slash \<notin> set b" and e: "pdfSuffix e"
  shows "path_parse (joinSlash (ds @ [b @ e])) = \<lparr>pdir = joinSlash ds, pname = b\<rparr>"
proof -
  have es: "slash \<notin> set e" using pdfSuffix_shape [OF e] by blast
  have x: "slash \<notin> set (b @ e)" "b @ e \<noteq> []" using b es by auto
  show ?thesis
  proof (cases "ds = []")
    case True
    have "path_parse (b @ e) = parseBody False ([] @ (b @ e))"
      using x b by (cases b) (auto simp add: path_parse_def)
    then show ?thesis
      using True parseBody_plain [OF x, of "[]" "[]" False] pathName_pdf [OF b(1) e]
      by (simp add: joinSlash_snoc)
  next
    case False
    have j: "joinSlash ds \<noteq> []" "hd (joinSlash ds) \<noteq> slash"
      using joinSlash_nonempty [OF False ds] by simp_all
    have p: "joinSlash (ds @ [b @ e]) = (joinSlash ds @ [slash]) @ (b @ e)"
      using False by (simp add: joinSlash_snoc)
    have "path_parse ((joinSlash ds @ [slash]) @ (b @ e))
        = parseBody False ((joinSlash ds @ [slash]) @ (b @ e))"
      using j by (simp add: path_parse_def)
    then show ?thesis
      unfolding p
      using parseBody_plain [OF x, of "joinSlash ds @ [slash]" "joinSlash ds" False]
        pathName_pdf [OF b(1) e]
      by simp
  qed
qed

lemma parse_absolute:
  assumes ds: "list_all plainSegment ds"
    and b: "b \<noteq> []" "slash \<notin> set b" and e: "pdfSuffix e"
  shows "path_parse (slash # joinSlash (ds @ [b @ e]))
           = \<lparr>pdir = slash # joinSlash ds, pname = b\<rparr>"
proof -
  have es: "slash \<notin> set e" using pdfSuffix_shape [OF e] by blast
  have x: "slash \<notin> set (b @ e)" "b @ e \<noteq> []" using b es by auto
  have top: "\<And>q. path_parse (slash # q) = parseBody True q"
    by (simp add: path_parse_def)
  show ?thesis
  proof (cases "ds = []")
    case True
    show ?thesis
      unfolding top
      using True parseBody_plain [OF x, of "[]" "[]" True] pathName_pdf [OF b(1) e]
      by (simp add: joinSlash_snoc)
  next
    case False
    have p: "joinSlash (ds @ [b @ e]) = (joinSlash ds @ [slash]) @ (b @ e)"
      using False by (simp add: joinSlash_snoc)
    show ?thesis
      unfolding top p
      using parseBody_plain [OF x, of "joinSlash ds @ [slash]" "joinSlash ds" True]
        pathName_pdf [OF b(1) e]
      by simp
  qed
qed

lemma normalize_relative:
  assumes segs: "list_all plainSegment segs" and ne: "segs \<noteq> []"
  shows "path_normalize (joinSlash segs) = joinSlash segs"
proof -
  have j: "joinSlash segs \<noteq> []" "hd (joinSlash segs) \<noteq> slash"
    "last (joinSlash segs) \<noteq> slash"
    using joinSlash_nonempty [OF ne segs] by simp_all
  have "list_all (\<lambda>d. slash \<notin> set d) segs"
    using segs by (induction segs) (simp_all add: plainSegment_def)
  then have sp: "splitSlash (joinSlash segs) = segs"
    using splitSlash_joinSlash [OF ne] by simp
  show ?thesis
    using j by (simp add: path_normalize_def Let_def sp normalizeSegments_plain [OF segs])
qed

lemma normalize_absolute:
  assumes segs: "list_all plainSegment segs" and ne: "segs \<noteq> []"
    and that: "set slashes \<subseteq> {slash}"
  shows "path_normalize (slash # slashes @ joinSlash segs) = slash # joinSlash segs"
proof -
  have j: "joinSlash segs \<noteq> []" "hd (joinSlash segs) \<noteq> slash"
    "last (joinSlash segs) \<noteq> slash"
    using joinSlash_nonempty [OF ne segs] by simp_all
  have "list_all (\<lambda>d. slash \<notin> set d) segs"
    using segs by (induction segs) (simp_all add: plainSegment_def)
  then have sp: "splitSlash (joinSlash segs) = segs"
    using splitSlash_joinSlash [OF ne] by simp
  have sl: "normalizeSegments False [] (splitSlash (slashes @ joinSlash segs)) = segs"
    using that by (induction slashes) (simp_all add: sp normalizeSegments_plain [OF segs])
  have "normalizeSegments False [] (splitSlash (slash # slashes @ joinSlash segs)) = segs"
    using sl by simp
  then show ?thesis
    using j by (simp add: path_normalize_def Let_def)
qed

lemma join_relative:
  assumes ds: "list_all plainSegment ds" and f: "plainSegment f"
  shows "path_join [joinSlash ds, f] = joinSlash (ds @ [f])"
proof (cases "ds = []")
  case True
  then show ?thesis using f normalize_relative [of "[f]"]
    by (simp add: path_join_def plainSegment_def)
next
  case False
  have j: "joinSlash ds \<noteq> []" using joinSlash_nonempty [OF False ds] by simp
  have "joinSlash [joinSlash ds, f] = joinSlash (ds @ [f])"
    using False by (simp add: joinSlash_snoc)
  then show ?thesis
    using j f ds normalize_relative [of "ds @ [f]"]
    by (simp add: path_join_def plainSegment_def)
qed

lemma join_absolute:
  assumes ds: "list_all plainSegment ds" and f: "plainSegment f"
  shows "path_join [slash # joinSlash ds, f] = slash # joinSlash (ds @ [f])"
proof (cases "ds = []")
  case True
  then show ?thesis using f normalize_absolute [of "[f]" "[slash]"]
    by (simp add: path_join_def plainSegment_def)
next
  case False
  have "joinSlash [slash # joinSlash ds, f] = slash # [] @ joinSlash (ds @ [f])"
    using False by (simp add: joinSlash_snoc)
  then show ?thesis
    using f ds normalize_absolute [of "ds @ [f]" "[]"]
    by (simp add: path_join_def plainSegment_def)
qed

lemma compressed_plain: "slash \<notin> set b \<Longrightarrow> plainSegment (b @ ''-compressed.pdf'')"
  by (auto simp add: plainSegment_def slash_def dot_def)

lemma suffix_is_pdf:
  assumes "endsWith (toLowerCase (P @ e)) ''.pdf''" and "length e = 4"
  shows "pdfSuffix e"
  using assms by (simp add: endsWith_def toLowerCase_def pdfSuffix_def)

lemma validate_default:
  assumes "validateOptions fs opts = (ns, Inr req)" and "noOutput (o_output opts)"
  shows "r_output req = defaultOutput (o_input opts) \<and>
         ns = [Line (''No output specified, using: '' @ defaultOutput (o_input opts))]"
  using assms
  by (auto simp add: validateOptions_def Let_def split: option.splits prod.splits if_splits)

lemma default_relative:
  assumes "list_all plainSegment ds" and "b \<noteq> []" and "slash \<notin> set b" and "pdfSuffix e"
  shows "defaultOutput (joinSlash (ds @ [b @ e])) = joinSlash (ds @ [b @ ''-compressed.pdf''])"
  using parse_relative [OF assms] join_relative [OF assms(1) compressed_plain [OF assms(3)]]
  by (simp add: defaultOutput_def)

lemma default_absolute:
  assumes "list_all plainSegment ds" and "b \<noteq> []" and "slash \<notin> set b" and "pdfSuffix e"
  shows "defaultOutput (slash # joinSlash (ds @ [b @ e]))
           = slash # joinSlash (ds @ [b @ ''-compressed.pdf''])"
  using parse_absolute [OF assms] join_absolute [OF assms(1) compressed_plain [OF assms(3)]]
  by (simp add: defaultOutput_def)

text \<open>
  Claim C5. For every validated request whose output path is absent, the derived
  output path is \<open>path.join\<close> of the input's directory and
  \<open><name>-compressed.pdf\<close>, \<open>name\<close> being the input's base name without extension,
  and the one line logged is the notice naming that path. For an input made of
  ordinary directory names, a non-empty name and an extension \<open>.pdf\<close> in any mix of
  cases, relative or absolute, with or without directories, the derived path is
  literally the directories, the name and \<open>-compressed.pdf\<close>, separated by \<open>/\<close>.
\<close>

theorem derived_output_path:
  assumes "validateOptions fs opts = (ns, Inr req)" and "noOutput (o_output opts)"
  shows "r_output req =
           path_join [pdir (path_parse (o_input opts)),
                      pname (path_parse (o_input opts)) @ ''-compressed.pdf''] \<and>
         ns = [Line (''No output specified, using: '' @ r_output req)] \<and>
         (list_all plainSegment ds \<and> b \<noteq> [] \<and> slash \<notin> set b \<and> length e = 4 \<longrightarrow>
            (o_input opts = joinSlash (ds @ [b @ e]) \<longrightarrow>
               r_output req = joinSlash (ds @ [b @ ''-compressed.pdf''])) \<and>
            (o_input opts = slash # joinSlash (ds @ [b @ e]) \<longrightarrow>
               r_output req = slash # joinSlash (ds @ [b @ ''-compressed.pdf''])))"
proof (intro conjI impI)
  have d: "r_output req = defaultOutput (o_input opts)"
    "ns = [Line (''No output specified, using: '' @ defaultOutput (o_input opts))]"
    using validate_default [OF assms] by simp_all
  show "r_output req =
      path_join [pdir (path_parse (o_input opts)),
                 pname (path_parse (o_input opts)) @ ''-compressed.pdf'']"
    using d(1) by (simp add: defaultOutput_def Let_def)
  show "ns = [Line (''No output specified, using: '' @ r_output req)]"
    using d by simp
  have pdf: "endsWith (toLowerCase (o_input opts)) ''.pdf''"
    using validate_success [OF assms(1)] by simp
  assume shape: "list_all plainSegment ds \<and> b \<noteq> [] \<and> slash \<notin> set b \<and> length e = 4"
  have snoc: "\<exists>P. joinSlash (ds @ [b @ e]) = P @ e"
    by (cases "ds = []") (simp_all add: joinSlash_snoc)
  {
    assume inp: "o_input opts = joinSlash (ds @ [b @ e])"
    obtain P where "joinSlash (ds @ [b @ e]) = P @ e"
      using snoc by blast
    then have "pdfSuffix e"
      using pdf inp shape suffix_is_pdf [of P e] by simp
    then show "r_output req = joinSlash (ds @ [b @ ''-compressed.pdf''])"
      using d(1) inp shape default_relative [of ds b e] by simp
  }
  {
    assume inp: "o_input opts = slash # joinSlash (ds @ [b @ e])"
    obtain P where "joinSlash (ds @ [b @ e]) = P @ e"
      using snoc by blast
    then have "pdfSuffix e"
      using pdf inp shape suffix_is_pdf [of "slash # P" e] by simp
    then show "r_output req = slash # joinSlash (ds @ [b @ ''-compressed.pdf''])"
      using d(1) inp shape default_absolute [of ds b e] by simp
  }
qed

lemma report_validate:
  "validateOptions (fsOf [(''docs/2024/Report.PDF'', 2048)])
     \<lparr>o_input = ''docs/2024/Report.PDF'', o_output = None, o_level = ''5'', o_verbose = True\<rparr>
   = ([Line ''No output specified, using: docs/2024/Report-compressed.pdf''],
      Inr \<lparr>r_input = ''docs/2024/Report.PDF'', r_output = ''docs/2024/Report-compressed.pdf'',
           r_level = 5, r_verbose = True\<rparr>)"
  by code_simp

lemma absolute_validate:
  "validateOptions (fsOf [(''/a.pdf'', 1)])
     \<lparr>o_input = ''/a.pdf'', o_output = Some [], o_level = ''1'', o_verbose = False\<rparr>
   = ([Line ''No output specified, using: /a-compressed.pdf''],
      Inr \<lparr>r_input = ''/a.pdf'', r_output = ''/a-compressed.pdf'', r_level = 1,
           r_verbose = False\<rparr>)"
  by code_simp

theorem derived_output_path_witness:
  "noOutput None \<and> noOutput (Some []) \<and>
   list_all plainSegment [''docs'', ''2024''] \<and>
   validateOptions sampleFs sampleOptions =
     ([Line ''No output specified, using: sample-compressed.pdf''], Inr sampleRequest) \<and>
   r_output sampleRequest = joinSlash [''sample-compressed.pdf''] \<and>
   joinSlash ([''docs'', ''2024''] @ [''Report'' @ ''.PDF'']) = ''docs/2024/Report.PDF'' \<and>
   defaultOutput ''docs/2024/Report.PDF'' = ''docs/2024/Report-compressed.pdf'' \<and>
   defaultOutput ''/a.pdf'' = ''/a-compressed.pdf''"
proof -
  have absent: "noOutput None" "noOutput (Some [])"
    by (simp_all add: noOutput_def)
  have plain: "list_all plainSegment [''docs'', ''2024'']" "list_all plainSegment []"
    by (simp_all add: plainSegment_def slash_def dot_def)
  have sample: "r_output sampleRequest = joinSlash [''sample-compressed.pdf'']"
    using derived_output_path [OF sample_validate, of "[]" "''sample''" "''.pdf''"] absent plain
    by (simp add: sampleOptions_def slash_def)
  have report: "''docs/2024/Report-compressed.pdf''
      = joinSlash ([''docs'', ''2024''] @ [''Report'' @ ''-compressed.pdf''])"
    using derived_output_path [OF report_validate, of "[''docs'', ''2024'']" "''Report''" "''.PDF''"]
      absent plain
    by (simp add: slash_def)
  have absolute: "''/a-compressed.pdf'' = slash # joinSlash ([] @ [''a'' @ ''-compressed.pdf''])"
    using derived_output_path [OF absolute_validate, of "[]" "''a''" "''.pdf''"] absent plain
    by (simp add: slash_def)
  have d1: "defaultOutput ''docs/2024/Report.PDF'' = ''docs/2024/Report-compressed.pdf''"
    using derived_output_path [OF report_validate, of "[]" "[]" "[]"] absent
    by (simp add: defaultOutput_def Let_def)
  have d2: "defaultOutput ''/a.pdf'' = ''/a-compressed.pdf''"
    using derived_output_path [OF absolute_validate, of "[]" "[]" "[]"] absent
    by (simp add: defaultOutput_def Let_def)
  show ?thesis
    using absent plain sample d1 d2 sample_validate by (simp add: slash_def)
qed

subsection \<open>The handlers of the child process\<close>

lemma runEvents_Nil: "runEvents l fs [] st = st"
  by (simp add: runEvents_def)

lemma runEvents_Cons: "runEvents l fs (ev # evs) st = runEvents l fs evs (handle l fs ev st)"
  by (simp add: runEvents_def)

lemma runEvents_append:
  "runEvents l fs (evs @ evs') st = runEvents l fs evs' (runEvents l fs evs st)"
  by (simp add: runEvents_def)

lemma runEvents_snoc: "runEvents l fs (evs @ [ev]) st = handle l fs ev (runEvents l fs evs st)"
  by (simp add: runEvents_def)

lemma handle_nonterminal:
  "\<not> terminal ev \<Longrightarrow>
   promise (handle l fs ev st) = promise st \<and> timer (handle l fs ev st) = timer st"
  by (cases ev) (simp_all add: Let_def logLines_def)

lemma handle_stderr:
  "\<not> terminal ev \<Longrightarrow> stderrData (handle l fs ev st) = stderrData st @ stderrOf [ev]"
  by (cases ev) (simp_all add: Let_def logLines_def)

lemma handle_settled: "promise st = Some r \<Longrightarrow> promise (handle l fs ev st) = Some r"
  by (cases ev) (simp_all add: Let_def logLines_def settle_def split: option.splits)

lemma runEvents_settled: "promise st = Some r \<Longrightarrow> promise (runEvents l fs evs st) = Some r"
  by (induction evs arbitrary: st) (simp_all add: runEvents_Nil runEvents_Cons handle_settled)

lemma handle_timer_off: "\<not> timer st \<Longrightarrow> \<not> timer (handle l fs ev st)"
  by (cases ev) (simp_all add: Let_def logLines_def settle_def split: option.splits)

lemma runEvents_timer_off: "\<not> timer st \<Longrightarrow> \<not> timer (runEvents l fs evs st)"
  by (induction evs arbitrary: st) (simp_all add: runEvents_Nil runEvents_Cons handle_timer_off)

lemma handle_terminal_timer: "terminal ev \<Longrightarrow> \<not> timer (handle l fs ev st)"
  by (cases ev) (simp_all add: Let_def logLines_def settle_def split: option.splits)

lemma stderrOf_append: "stderrOf (evs @ evs') = stderrOf evs @ stderrOf evs'"
  by (induction evs rule: stderrOf.induct) simp_all

lemma childRunning_append:
  "childRunning (evs @ evs') \<longleftrightarrow> childRunning evs \<and> childRunning evs'"
  by (induction evs) simp_all

lemma childRunning_no_close: "childRunning evs \<Longrightarrow> Close code \<notin> set evs"
  by (induction evs) auto

text \<open>While the child runs the promise is pending, the timer is on and stderr grows.\<close>

lemma runEvents_running:
  "childRunning evs \<Longrightarrow>
   promise (runEvents l fs evs st) = promise st \<and>
   timer (runEvents l fs evs st) = timer st \<and>
   stderrData (runEvents l fs evs st) = stderrData st @ stderrOf evs"
proof (induction evs arbitrary: st)
  case Nil
  then show ?case by (simp add: runEvents_Nil)
next
  case (Cons ev evs)
  then have nt: "\<not> terminal ev" and rest: "childRunning evs"
    by simp_all
  have "stderrOf (ev # evs) = stderrOf [ev] @ stderrOf evs"
    using stderrOf_append [of "[ev]" evs] by simp
  then show ?case
    using Cons.IH [OF rest, of "handle l fs ev st"] handle_nonterminal [OF nt, of l fs st]
      handle_stderr [OF nt, of l fs st]
    by (simp add: runEvents_Cons)
qed

text \<open>After the first terminal event the timer is off for good.\<close>

lemma runEvents_ended: "\<not> childRunning evs \<Longrightarrow> \<not> timer (runEvents l fs evs st)"
proof (induction evs arbitrary: st)
  case Nil
  then show ?case by simp
next
  case (Cons ev evs)
  show ?case
  proof (cases "terminal ev")
    case True
    then show ?thesis
      using runEvents_timer_off [OF handle_terminal_timer [OF True]]
      by (simp add: runEvents_Cons)
  next
    case False
    then show ?thesis using Cons by (simp add: runEvents_Cons)
  qed
qed

lemma close_zero_missing:
  "promise st = None \<Longrightarrow> fs (r_output (l_request l)) = None \<Longrightarrow>
   promise (handle l fs (Close (Some 0)) st) = Some (Inl OutputMissing)"
  by (simp add: Let_def settle_def)

lemma close_nonzero:
  "promise st = None \<Longrightarrow> code \<noteq> Some 0 \<Longrightarrow>
   promise (handle l fs (Close code) st) = Some (Inl (EngineFailure code (stderrData st)))"
  by (simp add: Let_def settle_def)

lemma spawn_enoent:
  "promise st = None \<Longrightarrow>
   promise (handle l fs (SpawnError ''ENOENT'' msg) st) = Some (Inl EngineNotFound)"
  by (simp add: Let_def settle_def)

lemma initialRun_fields:
  "promise initialRun = None" "timer initialRun" "stderrData initialRun = []"
  "progress initialRun = 0" "console initialRun = []"
  by (simp_all add: initialRun_def)

text \<open>The first terminal event decides the promise.\<close>

lemma first_terminal_decides:
  assumes "childRunning evs"
    and "\<And>st. promise st = None \<Longrightarrow> stderrData st = stderrOf evs \<Longrightarrow>
           promise (handle l fs ev st) = Some r"
  shows "promise (runEvents l fs (evs @ ev # evs') initialRun) = Some r"
proof -
  have run: "promise (runEvents l fs evs initialRun) = None"
    "stderrData (runEvents l fs evs initialRun) = stderrOf evs"
    using runEvents_running [OF assms(1), of l fs initialRun] by (simp_all add: initialRun_fields)
  have "promise (handle l fs ev (runEvents l fs evs initialRun)) = Some r"
    using assms(2) run by simp
  then show ?thesis
    by (simp add: runEvents_append runEvents_Cons runEvents_settled)
qed

lemma reported_step: "reported l fs evs st \<Longrightarrow> reported l fs (evs @ [ev]) (handle l fs ev st)"
  by (cases ev)
    (auto simp add: reported_def Let_def logLines_def settle_def existsSync_def
      split: option.splits if_splits)

lemma reported_run: "reported l fs evs (runEvents l fs evs initialRun)"
proof (induction evs rule: rev_induct)
  case Nil
  then show ?case by (simp add: runEvents_Nil reported_def initialRun_def)
next
  case (snoc ev evs)
  then show ?case using reported_step [of l fs evs _ ev] by (simp add: runEvents_snoc)
qed

lemma sampleFs_output:
  "\<not> existsSync sampleFs (r_output (l_request sampleLaunch))"
  "existsSync sampleFsAfter (r_output (l_request sampleLaunch))"
  by (simp_all add: existsSync_def sampleFs_def sampleFsAfter_def fsOf_def sampleLaunch_def
      sampleRequest_def)

lemma sample_success:
  "promise (runEvents sampleLaunch sampleFsAfter [Tick, Tick, Close (Some 0)] initialRun)
     = Some (Inr ())"
  by (simp add: runEvents_def initialRun_def Let_def settle_def logLines_def sampleFsAfter_def
      fsOf_def sampleLaunch_def sampleRequest_def)

text \<open>
  Claim C6. Whenever the child exits with status 0 and the output file does not exist,
  the run fails with \<open>OutputMissing\<close>; the run succeeds, and the statistics are
  printed, only when exit status 0 was delivered and the output file exists.
\<close>

theorem output_missing_is_failure:
  "(childRunning evs \<and> \<not> existsSync fs (r_output (l_request l)) \<longrightarrow>
      promise (runEvents l fs (evs @ Close (Some 0) # evs') initialRun)
        = Some (Inl OutputMissing)) \<and>
   (promise (runEvents l fs evs initialRun) = Some (Inr ()) \<longrightarrow>
      Close (Some 0) \<in> set evs \<and> existsSync fs (r_output (l_request l))) \<and>
   (RatioLine a b \<in> set (console (runEvents l fs evs initialRun)) \<longrightarrow>
      Close (Some 0) \<in> set evs \<and> fs (r_output (l_request l)) = Some b \<and>
      a = l_inputSizeBytes l)"
proof (intro conjI impI)
  assume "childRunning evs \<and> \<not> existsSync fs (r_output (l_request l))"
  then have run: "childRunning evs" and missing: "fs (r_output (l_request l)) = None"
    by (simp_all add: existsSync_def)
  have "promise (handle l fs (Close (Some 0)) st) = Some (Inl OutputMissing)"
    if "promise st = None" for st
    using that missing by (rule close_zero_missing)
  with run show "promise (runEvents l fs (evs @ Close (Some 0) # evs') initialRun)
      = Some (Inl OutputMissing)"
    by (rule first_terminal_decides)
next
  assume "promise (runEvents l fs evs initialRun) = Some (Inr ())"
  then show "Close (Some 0) \<in> set evs" "existsSync fs (r_output (l_request l))"
    using reported_run [of l fs evs] by (simp_all add: reported_def)
next
  assume "RatioLine a b \<in> set (console (runEvents l fs evs initialRun))"
  then have "Close (Some 0) \<in> set evs \<and> a = l_inputSizeBytes l \<and>
      fs (r_output (l_request l)) = Some b"
    using reported_run [of l fs evs] unfolding reported_def by blast
  then show "Close (Some 0) \<in> set evs" "fs (r_output (l_request l)) = Some b"
    "a = l_inputSizeBytes l"
    by simp_all
qed

theorem output_missing_is_failure_witness:
  "childRunning [Tick, Stdout ''x'', Tick] \<and>
   \<not> existsSync sampleFs (r_output (l_request sampleLaunch)) \<and>
   promise (runEvents sampleLaunch sampleFs ([Tick, Stdout ''x'', Tick] @ [Close (Some 0)])
     initialRun) = Some (Inl OutputMissing) \<and>
   promise (runEvents sampleLaunch sampleFsAfter [Tick, Tick, Close (Some 0)] initialRun)
     = Some (Inr ()) \<and>
   existsSync sampleFsAfter (r_output (l_request sampleLaunch))"
  using output_missing_is_failure [of "[Tick, Stdout ''x'', Tick]" sampleFs sampleLaunch "[]"]
    output_missing_is_failure [of "[Tick, Tick, Close (Some 0)]" sampleFsAfter sampleLaunch]
    sampleFs_output sample_success
  by simp

text \<open>
  Claim C7. A spawn error with code \<open>ENOENT\<close>, the engine executable being absent from
  the search path, produces \<open>EngineNotFound\<close>; a child that exits with a status other
  than 0 produces \<open>EngineFailure\<close> with that exit code and the standard-error text
  accumulated so far. The two errors are distinct, and so are their messages.
\<close>

theorem engine_not_found_distinct:
  "(childRunning evs \<longrightarrow>
      promise (runEvents l fs (evs @ SpawnError ''ENOENT'' msg # evs') initialRun)
        = Some (Inl EngineNotFound)) \<and>
   (childRunning evs \<and> code \<noteq> Some 0 \<longrightarrow>
      promise (runEvents l fs (evs @ Close code # evs') initialRun)
        = Some (Inl (EngineFailure code (stderrOf evs)))) \<and>
   EngineNotFound \<noteq> EngineFailure code err \<and>
   message EngineNotFound \<noteq> message (EngineFailure code err) \<and>
   message (EngineFailure code err)
     = ''Ghostscript exited with code '' @ showCode code @ '': '' @ err"
proof (intro conjI impI)
  assume run: "childRunning evs"
  show "promise (runEvents l fs (evs @ SpawnError ''ENOENT'' msg # evs') initialRun)
      = Some (Inl EngineNotFound)"
    using run spawn_enoent by (rule first_terminal_decides)
next
  assume "childRunning evs \<and> code \<noteq> Some 0"
  then have run: "childRunning evs" and nz: "code \<noteq> Some 0"
    by simp_all
  have "promise (handle l fs (Close code) st) = Some (Inl (EngineFailure code (stderrOf evs)))"
    if "promise st = None" "stderrData st = stderrOf evs" for st
    using close_nonzero [OF that(1) nz, of l fs] that(2) by simp
  with run show "promise (runEvents l fs (evs @ Close code # evs') initialRun)
      = Some (Inl (EngineFailure code (stderrOf evs)))"
    by (rule first_terminal_decides)
qed simp_all

theorem engine_not_found_distinct_witness:
  "childRunning [] \<and>
   promise (runEvents sampleLaunch sampleFs [SpawnError ''ENOENT'' ''spawn gs ENOENT''] initialRun)
     = Some (Inl EngineNotFound) \<and>
   childRunning [Tick, Stderr ''Error: '', Tick, Stderr ''bad file''] \<and>
   promise (runEvents sampleLaunch sampleFs
       ([Tick, Stderr ''Error: '', Tick, Stderr ''bad file''] @ [Close (Some 1)]) initialRun)
     = Some (Inl (EngineFailure (Some 1) ''Error: bad file'')) \<and>
   message (EngineFailure (Some 1) ''Error: bad file'')
     = ''Ghostscript exited with code 1: Error: bad file''"
  using engine_not_found_distinct [of "[]" sampleLaunch sampleFs "''spawn gs ENOENT''" "[]"
      "Some 1" "''Error: bad file''"]
    engine_not_found_distinct [of "[Tick, Stderr ''Error: '', Tick, Stderr ''bad file'']"
      sampleLaunch sampleFs "''''" "[]" "Some 1" "''Error: bad file''"]
  by (simp add: showCode_def showInt_def showNat.simps char_of_eq)

text \<open>
  Claim C9. While the child process runs, every update made by the timer leaves the
  progress value at most 99, and so does every run of callbacks in which the child has
  not ended. The value is 100 only after exit code 0 was delivered. After any terminal
  event, a \<open>close\<close> with whatever code or a spawn error, the timer is cancelled, and a
  cancelled timer updates nothing.
\<close>

theorem progress_ceiling:
  "(timer st \<longrightarrow> progress (handle l fs Tick st) \<le> 99) \<and>
   (\<not> timer st \<longrightarrow> handle l fs Tick st = st) \<and>
   (childRunning evs \<longrightarrow>
      progress (runEvents l fs evs initialRun) \<le> 99 \<and> timer (runEvents l fs evs initialRun)) \<and>
   (progress (runEvents l fs evs initialRun) = 100 \<longrightarrow> Close (Some 0) \<in> set evs) \<and>
   (\<not> childRunning evs \<longrightarrow> \<not> timer (runEvents l fs evs initialRun))"
proof (intro conjI impI)
  assume run: "childRunning evs"
  have "progress (runEvents l fs evs initialRun) \<le> 99 \<or> Close (Some 0) \<in> set evs"
    using reported_run [of l fs evs] by (auto simp add: reported_def)
  then show "progress (runEvents l fs evs initialRun) \<le> 99"
    using childRunning_no_close [OF run] by simp
  show "timer (runEvents l fs evs initialRun)"
    using runEvents_running [OF run, of l fs initialRun] by (simp add: initialRun_fields)
next
  assume "progress (runEvents l fs evs initialRun) = 100"
  then show "Close (Some 0) \<in> set evs"
    using reported_run [of l fs evs] by (simp add: reported_def)
next
  assume "\<not> childRunning evs"
  then show "\<not> timer (runEvents l fs evs initialRun)"
    by (rule runEvents_ended)
qed simp_all

theorem progress_ceiling_witness:
  "childRunning (replicate 25 Tick) \<and>
   progress (runEvents sampleLaunch sampleFs (replicate 25 Tick) initialRun) \<le> 99 \<and>
   timer (runEvents sampleLaunch sampleFs (replicate 25 Tick) initialRun) \<and>
   progress (runEvents sampleLaunch sampleFsAfter [Tick, Close (Some 0), Tick] initialRun) = 100 \<and>
   Close (Some 0) \<in> set [Tick, Close (Some 0), Tick] \<and>
   \<not> timer (runEvents sampleLaunch sampleFs [Tick, Close (Some 1)] initialRun) \<and>
   \<not> timer (runEvents sampleLaunch sampleFs [SpawnError ''ENOENT'' [], Tick] initialRun) \<and>
   \<not> timer (runEvents sampleLaunch sampleFsAfter [Tick, Close (Some 0), Tick] initialRun)"
proof -
  have run: "childRunning (replicate 25 Tick)"
    by code_simp
  have hundred: "progress (runEvents sampleLaunch sampleFsAfter [Tick, Close (Some 0), Tick] initialRun) = 100"
    by (simp add: runEvents_def initialRun_def Let_def settle_def logLines_def sampleFsAfter_def
      fsOf_def sampleLaunch_def sampleRequest_def)
  show ?thesis
    using progress_ceiling [of initialRun sampleLaunch sampleFs "replicate 25 Tick"]
      progress_ceiling [of initialRun sampleLaunch sampleFsAfter "[Tick, Close (Some 0), Tick]"]
      progress_ceiling [of initialRun sampleLaunch sampleFs "[Tick, Close (Some 1)]"]
      progress_ceiling [of initialRun sampleLaunch sampleFs "[SpawnError ''ENOENT'' [], Tick]"]
      run hundred
    by simp
qed

subsection \<open>The statistics\<close>

lemma toNumber_numeral: "toNumber (numeral k) = Finite (roundDouble (numeral k))"
  by (simp add: toNumber_def)

lemma toNumber_small: "toNumber 0 = Finite 0" "toNumber 1 = Finite 1"
  by code_simp+

lemma roundDouble_sizes:
  "roundDouble 10485760 = 10485760" "roundDouble 4194304 = 4194304"
  "roundDouble 1024 = 1024" "roundDouble 100 = 100"
  by code_simp+

lemma sample_statistics:
  "render (InputSizeLine 10485760) = ''Input file size: 10.00 MB''"
  "render (OutputSizeLine 4194304) = ''Output file size: 4.00 MB''"
  "render (RatioLine 10485760 4194304) = ''Compression ratio: 2.50x (60.0% smaller)''"
  unfolding render.simps sizeMB_def compressionRatio_def spaceSaved_def toNumber_numeral
    toNumber_small roundDouble_sizes
  by code_simp+

lemma empty_statistics:
  "render (OutputSizeLine 0) = ''Output file size: 0.00 MB''"
  "render (RatioLine 0 0) = ''Compression ratio: NaNx (NaN% smaller)''"
  "render (RatioLine 10485760 0) = ''Compression ratio: Infinityx (100.0% smaller)''"
  unfolding render.simps sizeMB_def compressionRatio_def spaceSaved_def toNumber_numeral
    toNumber_small roundDouble_sizes
  by code_simp+

lemma empty_default: "defaultOutput ''empty.pdf'' = ''empty-compressed.pdf''"
  by code_simp

lemma empty_launch: "snd (compressPdf_launch emptyFs emptyOptions) = Inr emptyLaunch"
  by (simp add: compressPdf_launch_def validateOptions_def emptyFs_def emptyOptions_def
      emptyLaunch_def fsOf_def existsSync_def endsWith_def toLowerCase_def toLowerCaseChar_def
      noOutput_def empty_default parseInt_examples)

text \<open>
  Claim C8 at an empty input file. Validation accepts it; when the engine then exits
  with status 0 and leaves an empty output file, the run succeeds and the statistics
  line reads \<open>NaNx (NaN% smaller)\<close>: neither a ratio rounded to two decimal places nor
  a percentage rounded to one. With only the output empty the ratio is \<open>Infinity\<close>.
\<close>

theorem zero_size_statistics:
  "snd (compressPdf_launch emptyFs emptyOptions) = Inr emptyLaunch \<and>
   promise (runEvents emptyLaunch emptyFsAfter [Close (Some 0)] initialRun) = Some (Inr ()) \<and>
   map render (console (runEvents emptyLaunch emptyFsAfter [Close (Some 0)] initialRun)) =
     [CHR 0x0A # ''PDF compression completed successfully!'',
      ''Output file size: 0.00 MB'',
      ''Compression ratio: NaNx (NaN% smaller)''] \<and>
   render (RatioLine 10485760 0) = ''Compression ratio: Infinityx (100.0% smaller)''"
proof -
  have run: "runEvents emptyLaunch emptyFsAfter [Close (Some 0)] initialRun =
    \<lparr>progress = 100, timer = False, barActive = False, stdoutData = [], stderrData = [],
     promise = Some (Inr ()),
     console = [Line (CHR 0x0A # ''PDF compression completed successfully!''),
                OutputSizeLine 0, RatioLine 0 0]\<rparr>"
    by (simp add: runEvents_def initialRun_def Let_def settle_def logLines_def emptyFsAfter_def
        fsOf_def emptyLaunch_def)
  have lines: "map render
      [Line (CHR 0x0A # ''PDF compression completed successfully!''), OutputSizeLine 0,
       RatioLine 0 0] =
     [CHR 0x0A # ''PDF compression completed successfully!'',
      ''Output file size: 0.00 MB'',
      ''Compression ratio: NaNx (NaN% smaller)'']"
    by (simp only: list.map empty_statistics render.simps(1))
  show ?thesis
    by (simp only: run run.select_convs lines empty_launch empty_statistics simp_thms)
qed

end
